theory Spec2Isabelle
  imports Main "HOL-Library.Sublist"
begin

section \<open>Scope model (packages/mcp-server/src/permissions.ts)\<close>

text \<open>
  The TypeScript union type \<open>Scope\<close> is a fixed set of sixteen string literals. It is
  modelled as a datatype; \<open>scopeName\<close> gives the string each constructor stands for.
  A JavaScript \<open>Set<Scope>\<close> is modelled as a HOL set: the claims never depend on the
  insertion order of a set.
\<close>

datatype Scope =
    OrgRead | OrgWrite | OrgAdmin
  | ProjectRead | ProjectWrite | ProjectAdmin
  | TeamRead | TeamWrite | TeamAdmin
  | MemberRead | MemberWrite | MemberAdmin
  | EventRead | EventWrite | EventAdmin
  | ProjectReleases

fun scopeName :: "Scope \<Rightarrow> string" where
  "scopeName OrgRead = ''org:read''"
| "scopeName OrgWrite = ''org:write''"
| "scopeName OrgAdmin = ''org:admin''"
| "scopeName ProjectRead = ''project:read''"
| "scopeName ProjectWrite = ''project:write''"
| "scopeName ProjectAdmin = ''project:admin''"
| "scopeName TeamRead = ''team:read''"
| "scopeName TeamWrite = ''team:write''"
| "scopeName TeamAdmin = ''team:admin''"
| "scopeName MemberRead = ''member:read''"
| "scopeName MemberWrite = ''member:write''"
| "scopeName MemberAdmin = ''member:admin''"
| "scopeName EventRead = ''event:read''"
| "scopeName EventWrite = ''event:write''"
| "scopeName EventAdmin = ''event:admin''"
| "scopeName ProjectReleases = ''project:releases''"

text \<open>The table \<open>SCOPE_HIERARCHY\<close>: the scopes each scope implies.\<close>

fun SCOPE_HIERARCHY :: "Scope \<Rightarrow> Scope set" where
  "SCOPE_HIERARCHY OrgRead = {OrgRead}"
| "SCOPE_HIERARCHY OrgWrite = {OrgRead, OrgWrite}"
| "SCOPE_HIERARCHY OrgAdmin = {OrgRead, OrgWrite, OrgAdmin}"
| "SCOPE_HIERARCHY ProjectRead = {ProjectRead}"
| "SCOPE_HIERARCHY ProjectWrite = {ProjectRead, ProjectWrite}"
| "SCOPE_HIERARCHY ProjectAdmin = {ProjectRead, ProjectWrite, ProjectAdmin}"
| "SCOPE_HIERARCHY TeamRead = {TeamRead}"
| "SCOPE_HIERARCHY TeamWrite = {TeamRead, TeamWrite}"
| "SCOPE_HIERARCHY TeamAdmin = {TeamRead, TeamWrite, TeamAdmin}"
| "SCOPE_HIERARCHY MemberRead = {MemberRead}"
| "SCOPE_HIERARCHY MemberWrite = {MemberRead, MemberWrite}"
| "SCOPE_HIERARCHY MemberAdmin = {MemberRead, MemberWrite, MemberAdmin}"
| "SCOPE_HIERARCHY EventRead = {EventRead}"
| "SCOPE_HIERARCHY EventWrite = {EventRead, EventWrite}"
| "SCOPE_HIERARCHY EventAdmin = {EventRead, EventWrite, EventAdmin}"
| "SCOPE_HIERARCHY ProjectReleases = {ProjectReleases}"

text \<open>\<open>ALL_SCOPES\<close> is \<open>Object.keys(SCOPE_HIERARCHY)\<close>, in the order of the table.\<close>

definition ALL_SCOPES :: "Scope list" where
  "ALL_SCOPES =
     [OrgRead, OrgWrite, OrgAdmin, ProjectRead, ProjectWrite, ProjectAdmin,
      TeamRead, TeamWrite, TeamAdmin, MemberRead, MemberWrite, MemberAdmin,
      EventRead, EventWrite, EventAdmin, ProjectReleases]"

text \<open>
  \<open>expandScopes\<close>: for every granted scope, every scope it implies is added to the
  result set.
\<close>

definition expandScopes :: "Scope set \<Rightarrow> Scope set" where
  "expandScopes grantedScopes = (\<Union>scope \<in> grantedScopes. SCOPE_HIERARCHY scope)"

definition hasRequiredScopes :: "Scope set \<Rightarrow> Scope list \<Rightarrow> bool" where
  "hasRequiredScopes grantedScopes requiredScopes =
     (let expandedScopes = expandScopes grantedScopes
      in list_all (\<lambda>scope. scope \<in> expandedScopes) requiredScopes)"

text \<open>
  \<open>isToolAllowed\<close> takes \<open>Scope[] | undefined\<close>; \<open>None\<close> is \<open>undefined\<close>.
\<close>

definition isToolAllowed :: "Scope list option \<Rightarrow> Scope set \<Rightarrow> bool" where
  "isToolAllowed requiredScopes grantedScopes =
     (case requiredScopes of
        None \<Rightarrow> True
      | Some required \<Rightarrow>
          if length required = 0 then True
          else hasRequiredScopes grantedScopes required)"

section \<open>Skill registry (skills.ts of packages/mcp-server)\<close>

text \<open>
  The type \<open>Skill\<close> is a union of five string literals, but what the registry's
  functions handle at run time are strings: \<open>parseSkills\<close> puts into its \<open>valid\<close> set
  whatever string \<open>isValidSkill\<close> accepts. A skill is therefore modelled as a string.
\<close>

type_synonym Skill = string

record SkillDefinition =
  skill_id :: Skill
  skill_name :: string
  description :: string
  defaultEnabled :: bool
  skill_order :: nat

text \<open>The object literal \<open>SKILLS\<close>, as its entries in the order they are written.\<close>

definition SKILLS :: "(Skill \<times> SkillDefinition) list" where
  "SKILLS =
     [(''inspect'',
        \<lparr>skill_id = ''inspect'', skill_name = ''Inspect Issues & Events'',
         description = ''Search for errors, analyze traces, and explore event details'',
         defaultEnabled = True, skill_order = 1\<rparr>),
      (''seer'',
        \<lparr>skill_id = ''seer'', skill_name = ''Seer'',
         description = ''Sentry's AI debugger that helps you analyze, root cause, and fix issues'',
         defaultEnabled = True, skill_order = 2\<rparr>),
      (''docs'',
        \<lparr>skill_id = ''docs'', skill_name = ''Documentation'',
         description = ''Search and read Sentry SDK documentation'',
         defaultEnabled = False, skill_order = 3\<rparr>),
      (''triage'',
        \<lparr>skill_id = ''triage'', skill_name = ''Triage Issues'',
         description = ''Resolve, assign, and update issues'',
         defaultEnabled = False, skill_order = 4\<rparr>),
      (''project-management'',
        \<lparr>skill_id = ''project-management'', skill_name = ''Manage Projects & Teams'',
         description = ''Create and modify projects, teams, and DSNs'',
         defaultEnabled = False, skill_order = 5\<rparr>)]"

definition SKILLS_ARRAY :: "SkillDefinition list" where
  "SKILLS_ARRAY = sort_key skill_order (map snd SKILLS)"

text \<open>\<open>ALL_SKILLS\<close> is \<open>Object.keys(SKILLS)\<close>.\<close>

definition ALL_SKILLS :: "Skill list" where
  "ALL_SKILLS = map fst SKILLS"

definition DEFAULT_SKILLS :: "Skill list" where
  "DEFAULT_SKILLS = map skill_id (filter defaultEnabled SKILLS_ARRAY)"

text \<open>
  \<open>isValidSkill\<close> is \<open>skill in SKILLS\<close>. The JavaScript operator \<open>in\<close> looks a
  property up along the prototype chain, and \<open>SKILLS\<close> is an object literal, so the
  properties of \<open>Object.prototype\<close> answer true as the five own keys do.
  \<open>OBJECT_PROTOTYPE_KEYS\<close> lists the property names of \<open>Object.prototype\<close>
  (ECMAScript, with its annex B).
\<close>

definition OBJECT_PROTOTYPE_KEYS :: "string list" where
  "OBJECT_PROTOTYPE_KEYS =
     [''constructor'', ''hasOwnProperty'', ''isPrototypeOf'', ''propertyIsEnumerable'',
      ''toLocaleString'', ''toString'', ''valueOf'', ''__proto__'',
      ''__defineGetter__'', ''__defineSetter__'', ''__lookupGetter__'', ''__lookupSetter__'']"

definition isValidSkill :: "string \<Rightarrow> bool" where
  "isValidSkill skill \<longleftrightarrow> skill \<in> set (map fst SKILLS) \<or> skill \<in> set OBJECT_PROTOTYPE_KEYS"

text \<open>
  \<open>hasRequiredSkills\<close> takes \<open>Set<Skill> | undefined\<close>; \<open>None\<close> is \<open>undefined\<close>.
  A \<open>Set\<close> object is truthy also when it is empty.
\<close>

definition hasRequiredSkills :: "Skill set option \<Rightarrow> Skill list \<Rightarrow> bool" where
  "hasRequiredSkills grantedSkills requiredSkills =
     (case grantedSkills of
        None \<Rightarrow> False
      | Some granted \<Rightarrow>
          if length requiredSkills = 0 then False
          else list_ex (\<lambda>skill. skill \<in> granted) requiredSkills)"

section \<open>Tool registration and constraint injection (configureServer of packages/mcp-server)\<close>

record Constraints =
  organizationSlug :: "string option"
  projectSlug :: "string option"
  regionUrl :: "string option"

text \<open>
  Of \<open>ServerContext\<close>, the fields that registration and the call path read to decide
  anything: the two grants and the constraints. (The token, host and the ids are passed
  on to the handler and to telemetry unchanged.) \<open>None\<close> is an absent field.
\<close>

record ServerContext =
  grantedSkills :: "Skill set option"
  grantedScopes :: "Scope set option"
  constraints :: Constraints

text \<open>
  A tool: its name, the parameter names its \<open>inputSchema\<close> declares, and its two
  requirement lists. \<open>configureServer\<close> and \<open>isToolAllowed\<close> guard against an
  undefined list, so both are options.
\<close>

record ToolConfig =
  tool_name :: string
  inputSchema :: "string list"
  requiredSkills :: "Skill list option"
  requiredScopes :: "Scope list option"

text \<open>The value of the local variable \<open>allowed\<close> in the loop of \<open>configureServer\<close>.\<close>

definition allowed :: "ServerContext \<Rightarrow> ToolConfig \<Rightarrow> bool" where
  "allowed ctx tool =
     (case grantedSkills ctx of
        Some skills \<Rightarrow>
          (case requiredSkills tool of
             None \<Rightarrow> False
           | Some required \<Rightarrow>
               if length required > 0 then hasRequiredSkills (Some skills) required
               else False)
      | None \<Rightarrow>
          (case grantedScopes ctx of
             Some scopes \<Rightarrow> isToolAllowed (requiredScopes tool) scopes
           | None \<Rightarrow> False))"

text \<open>
  JavaScript truthiness of an optional string: defined and not empty. \<open>text_of\<close>
  reads the string of an optional string that a test has found truthy.
\<close>

definition truthy :: "string option \<Rightarrow> bool" where
  "truthy v = (case v of None \<Rightarrow> False | Some s \<Rightarrow> s \<noteq> [])"

definition text_of :: "string option \<Rightarrow> string" where
  "text_of v = (case v of None \<Rightarrow> [] | Some s \<Rightarrow> s)"

text \<open>
  Modelled from the spec: \<open>getConstraintParametersToInject\<close> of
  \<open>internal/constraint-helpers.ts\<close>, which is not among the sources. The spec: for a
  tool, the declared parameter names matching an active constraint, aliases included
  (\<open>projectSlugOrId\<close> satisfies a project constraint), each with the constrained value.
  A constraint is active when it is set to a non-empty value, as in the tests
  \<open>configureServer\<close> itself makes of \<open>context.constraints\<close>. The function is given the
  constraints and the schema only, never the caller's arguments.
\<close>

definition getConstraintParametersToInject :: "Constraints \<Rightarrow> string list \<Rightarrow> (string \<times> string) list" where
  "getConstraintParametersToInject cs schema =
     (if truthy (organizationSlug cs) \<and> ''organizationSlug'' \<in> set schema
      then [(''organizationSlug'', text_of (organizationSlug cs))] else [])
     @ (if truthy (projectSlug cs) \<and> ''projectSlug'' \<in> set schema
        then [(''projectSlug'', text_of (projectSlug cs))] else [])
     @ (if truthy (projectSlug cs) \<and> ''projectSlugOrId'' \<in> set schema
        then [(''projectSlugOrId'', text_of (projectSlug cs))] else [])
     @ (if truthy (regionUrl cs) \<and> ''regionUrl'' \<in> set schema
        then [(''regionUrl'', text_of (regionUrl cs))] else [])"

text \<open>
  Modelled from the spec: \<open>getConstraintKeysToFilter\<close> of the same absent file, the
  declared parameter names matching an active constraint.
\<close>

definition getConstraintKeysToFilter :: "Constraints \<Rightarrow> string list \<Rightarrow> string list" where
  "getConstraintKeysToFilter cs schema = map fst (getConstraintParametersToInject cs schema)"

text \<open>A value of a tool argument.\<close>

datatype JsValue = JString string | JNumber int | JBool bool | JNull

text \<open>
  The argument bag is an object, modelled as a map from keys. The object spread
  \<open>{...params, ...applicableConstraints}\<close> copies the entries of \<open>params\<close> and then
  those of \<open>applicableConstraints\<close>, a later entry replacing an earlier one with the
  same key: the map override \<open>++\<close>. \<open>paramsWithConstraints\<close> is what the callback
  of a registered tool calls \<open>tool.handler\<close> with.
\<close>

definition applicableConstraints :: "ServerContext \<Rightarrow> ToolConfig \<Rightarrow> (string \<rightharpoonup> JsValue)" where
  "applicableConstraints ctx tool =
     map_of (map (\<lambda>(k, v). (k, JString v))
       (getConstraintParametersToInject (constraints ctx) (inputSchema tool)))"

definition paramsWithConstraints ::
  "ServerContext \<Rightarrow> ToolConfig \<Rightarrow> (string \<rightharpoonup> JsValue) \<Rightarrow> (string \<rightharpoonup> JsValue)" where
  "paramsWithConstraints ctx tool params = params ++ applicableConstraints ctx tool"

text \<open>
  What \<open>configureServer\<close> registers with \<open>server.tool\<close>: for every allowed tool,
  in the order of the catalogue, its name, its schema without the constrained keys, and
  the callback. Of the callback the model keeps the argument bag it calls
  \<open>tool.handler\<close> with, as a function of the \<open>params\<close> it is called with.
\<close>

record RegisteredTool =
  registered_name :: string
  filteredInputSchema :: "string list"
  callback :: "(string \<rightharpoonup> JsValue) \<Rightarrow> (string \<rightharpoonup> JsValue)"

definition configureServer :: "ServerContext \<Rightarrow> ToolConfig list \<Rightarrow> RegisteredTool list" where
  "configureServer ctx toolsToRegister =
     map (\<lambda>tool.
            \<lparr>registered_name = tool_name tool,
             filteredInputSchema =
               filter (\<lambda>key. key \<notin> set (getConstraintKeysToFilter (constraints ctx) (inputSchema tool)))
                 (inputSchema tool),
             callback = paramsWithConstraints ctx tool\<rparr>)
         (filter (allowed ctx) toolsToRegister)"

section \<open>Parsing scope and skill lists\<close>

text \<open>
  A JavaScript string is a sequence of UTF-16 code units. A \<open>char\<close> of the model is
  a code unit below 256, so that a \<open>string\<close> of the model is a JavaScript string all of
  whose code units are below 256; strings with a code unit from 256 on are outside the
  type and outside the model.

  \<open>splitOn\<close> is \<open>String.prototype.split\<close> with a one-character separator (the
  empty string splits into one empty token) and \<open>join\<close> is \<open>Array.prototype.join\<close>.
  \<open>trim\<close> is \<open>String.prototype.trim\<close>, which strips the ECMAScript WhiteSpace and
  LineTerminator code points from both ends. Those below 256 are the seven that
  \<open>isWhiteSpace\<close> lists: TAB, LF, VT, FF, CR, SPACE and the no-break space U+00A0. All the
  others (U+1680, U+2000 to U+200A, U+2028, U+2029, U+202F, U+205F, U+3000 and U+FEFF)
  lie from 256 on.
\<close>

fun splitOn :: "char \<Rightarrow> string \<Rightarrow> string list" where
  "splitOn sep [] = [[]]"
| "splitOn sep (c # cs) =
     (if c = sep then [] # splitOn sep cs
      else (case splitOn sep cs of
              [] \<Rightarrow> [[c]]
            | w # ws \<Rightarrow> (c # w) # ws))"

definition isWhiteSpace :: "char \<Rightarrow> bool" where
  "isWhiteSpace c \<longleftrightarrow>
     c \<in> {CHR 0x09, CHR 0x0A, CHR 0x0B, CHR 0x0C, CHR 0x0D, CHR '' '', CHR 0xA0}"

definition trim :: "string \<Rightarrow> string" where
  "trim s = rev (dropWhile isWhiteSpace (rev (dropWhile isWhiteSpace s)))"

fun join :: "string \<Rightarrow> string list \<Rightarrow> string" where
  "join sep [] = []"
| "join sep [x] = x"
| "join sep (x # y # ys) = x @ sep @ join sep (y # ys)"

text \<open>
  The parsers take a value of type \<open>unknown\<close>: a string, an array (whose elements
  that are not strings count as the empty string), or anything else.
\<close>

datatype Unknown = UString string | UArray "string option list" | UOther

definition ALL_SCOPES_SET :: "string \<Rightarrow> Scope option" where
  "ALL_SCOPES_SET raw = map_of (map (\<lambda>s. (scopeName s, s)) ALL_SCOPES) raw"

fun parseScopes_loop :: "string list \<Rightarrow> Scope set \<times> string list \<Rightarrow> Scope set \<times> string list" where
  "parseScopes_loop [] (valid, invalid) = (valid, invalid)"
| "parseScopes_loop (raw # rest) (valid, invalid) =
     (case ALL_SCOPES_SET raw of
        Some scope \<Rightarrow> parseScopes_loop rest (insert scope valid, invalid)
      | None \<Rightarrow> parseScopes_loop rest (valid, invalid @ [raw]))"

definition parseScopes :: "Unknown \<Rightarrow> Scope set \<times> string list" where
  "parseScopes input =
     (let tokens = (case input of
                      UString str \<Rightarrow> splitOn CHR '','' str
                    | UArray vs \<Rightarrow> map (\<lambda>v. case v of Some str \<Rightarrow> str | None \<Rightarrow> []) vs
                    | UOther \<Rightarrow> [])
      in parseScopes_loop (filter (\<lambda>s. s \<noteq> []) (map trim tokens)) ({}, []))"

text \<open>
  \<open>resolveScopes\<close>: the fields \<open>override\<close> and \<open>add\<close> of its options are optional
  sets (a set, when given, is truthy also when it is empty).
\<close>

definition resolveScopes :: "Scope set option \<Rightarrow> Scope set option \<Rightarrow> Scope list \<Rightarrow> Scope set option" where
  "resolveScopes override add defaults =
     (case override of
        Some ov \<Rightarrow> Some (expandScopes ov)
      | None \<Rightarrow>
          (case add of
             Some ad \<Rightarrow> Some (expandScopes (set defaults \<union> ad))
           | None \<Rightarrow> None))"

fun parseSkills_loop :: "string list \<Rightarrow> Skill set \<times> string list \<Rightarrow> Skill set \<times> string list" where
  "parseSkills_loop [] (valid, invalid) = (valid, invalid)"
| "parseSkills_loop (skill # rest) (valid, invalid) =
     (let trimmed = trim skill
      in if isValidSkill trimmed then parseSkills_loop rest (insert trimmed valid, invalid)
         else if trimmed \<noteq> [] then parseSkills_loop rest (valid, invalid @ [trimmed])
         else parseSkills_loop rest (valid, invalid))"

definition parseSkills :: "Unknown \<Rightarrow> Skill set \<times> string list" where
  "parseSkills input =
     (case input of
        UString str \<Rightarrow>
          if str = [] then ({}, [])
          else parseSkills_loop (splitOn CHR '','' str) ({}, [])
      | UArray vs \<Rightarrow>
          parseSkills_loop (map (\<lambda>v. case v of Some str \<Rightarrow> str | None \<Rightarrow> []) vs) ({}, [])
      | UOther \<Rightarrow> ({}, []))"

section \<open>Configuration resolution (merge and finalize of packages/mcp-server/src/cli)\<close>

text \<open>
  The three argument records of \<open>cli/types.ts\<close>. An optional field is an option,
  \<open>None\<close> for \<open>undefined\<close>. The field names carry the record's name, since the
  records share their field names.
\<close>

record CliArgs =
  cli_accessToken :: "string option"
  cli_host :: "string option"
  cli_url :: "string option"
  cli_mcpUrl :: "string option"
  cli_sentryDsn :: "string option"
  cli_openaiBaseUrl :: "string option"
  cli_openaiModel :: "string option"
  cli_scopes :: "string option"
  cli_addScopes :: "string option"
  cli_allScopes :: "bool option"
  cli_skills :: "string option"
  cli_agent :: "bool option"
  cli_organizationSlug :: "string option"
  cli_projectSlug :: "string option"
  cli_help :: "bool option"
  cli_version :: "bool option"
  cli_unknownArgs :: "string list"

record EnvArgs =
  env_accessToken :: "string option"
  env_host :: "string option"
  env_url :: "string option"
  env_mcpUrl :: "string option"
  env_sentryDsn :: "string option"
  env_openaiModel :: "string option"
  env_scopes :: "string option"
  env_addScopes :: "string option"
  env_skills :: "string option"

record MergedArgs =
  merged_accessToken :: "string option"
  merged_host :: "string option"
  merged_url :: "string option"
  merged_mcpUrl :: "string option"
  merged_sentryDsn :: "string option"
  merged_openaiBaseUrl :: "string option"
  merged_openaiModel :: "string option"
  merged_scopes :: "string option"
  merged_addScopes :: "string option"
  merged_allScopes :: "bool option"
  merged_skills :: "string option"
  merged_agent :: "bool option"
  merged_organizationSlug :: "string option"
  merged_projectSlug :: "string option"
  merged_help :: "bool option"
  merged_version :: "bool option"
  merged_unknownArgs :: "string list"

text \<open>The operator \<open>??\<close>: the left operand unless it is \<open>undefined\<close>.\<close>

definition nullish :: "'a option \<Rightarrow> 'a option \<Rightarrow> 'a option" where
  "nullish a b = (case a of Some v \<Rightarrow> Some v | None \<Rightarrow> b)"

text \<open>
  \<open>merge\<close> builds the merged record and then runs its two conditional assignments in
  order. Their conditions, \<open>if (cli.scopes)\<close> and \<open>if (cli.addScopes)\<close>, are tests
  of truthiness.
\<close>

definition merge :: "CliArgs \<Rightarrow> EnvArgs \<Rightarrow> MergedArgs" where
  "merge cli env =
     (let merged =
            \<lparr>merged_accessToken = nullish (cli_accessToken cli) (env_accessToken env),
             merged_host = nullish (cli_host cli) (env_host env),
             merged_url = nullish (cli_url cli) (env_url env),
             merged_mcpUrl = nullish (cli_mcpUrl cli) (env_mcpUrl env),
             merged_sentryDsn = nullish (cli_sentryDsn cli) (env_sentryDsn env),
             merged_openaiBaseUrl = cli_openaiBaseUrl cli,
             merged_openaiModel = nullish (cli_openaiModel cli) (env_openaiModel env),
             merged_scopes = nullish (cli_scopes cli) (env_scopes env),
             merged_addScopes = nullish (cli_addScopes cli) (env_addScopes env),
             merged_allScopes = Some (cli_allScopes cli = Some True),
             merged_skills = nullish (cli_skills cli) (env_skills env),
             merged_agent = Some (cli_agent cli = Some True),
             merged_organizationSlug = cli_organizationSlug cli,
             merged_projectSlug = cli_projectSlug cli,
             merged_help = Some (cli_help cli = Some True),
             merged_version = Some (cli_version cli = Some True),
             merged_unknownArgs = cli_unknownArgs cli\<rparr>;
          merged1 = (if truthy (cli_scopes cli)
                     then merged\<lparr>merged_addScopes := cli_addScopes cli\<rparr> else merged);
          merged2 = (if truthy (cli_addScopes cli)
                     then merged1\<lparr>merged_scopes := cli_scopes cli\<rparr> else merged1)
      in merged2)"

text \<open>A thrown JavaScript \<open>Error\<close>, by its message.\<close>

datatype error = Error string

definition DEFAULT_SCOPES :: "Scope list" where
  "DEFAULT_SCOPES = [OrgRead, ProjectRead, TeamRead, EventRead]"

definition formatInvalid :: "string list \<Rightarrow> string option \<Rightarrow> string" where
  "formatInvalid invalid envName =
     (let wher = (if truthy envName then text_of envName @ '' provided''
                  else ''Invalid scopes provided'')
      in ''Error: '' @ wher @ '': '' @ join '', '' invalid @ [CHR 0x0A]
         @ ''Available scopes: '' @ join '', '' (map scopeName ALL_SCOPES))"

definition formatInvalidSkills :: "string list \<Rightarrow> string option \<Rightarrow> string" where
  "formatInvalidSkills invalid envName =
     (let wher = (if truthy envName then text_of envName @ '' provided''
                  else ''Invalid skills provided'');
          allSkills = join '', '' (map fst SKILLS)
      in ''Error: '' @ wher @ '': '' @ join '', '' invalid @ [CHR 0x0A]
         @ ''Available skills: '' @ allSkills)"

text \<open>
  The three validators of \<open>utils/url-utils\<close> are not among the sources; \<open>finalize\<close>
  takes them as a parameter. Each returns its result or the error it throws.
\<close>

record UrlUtils =
  validateAndParseSentryUrlThrows :: "string \<Rightarrow> error + string"
  validateSentryHostThrows :: "string \<Rightarrow> error + unit"
  validateOpenAiBaseUrlThrows :: "string \<Rightarrow> error + string"

record ResolvedConfig =
  accessToken :: string
  sentryHost :: string
  mcpUrl :: "string option"
  sentryDsn :: "string option"
  openaiBaseUrl :: "string option"
  openaiModel :: "string option"
  finalScopes :: "Scope set option"
  finalSkills :: "Skill set option"
  cfg_organizationSlug :: "string option"
  cfg_projectSlug :: "string option"

text \<open>
  \<open>finalize\<close> runs four blocks in order, each of which may throw: the host, the
  legacy scopes, the skills and the OpenAI base URL. The blocks are the four
  definitions below; \<open>finalize\<close> runs them after its test of the access token. The deprecation warnings that the
  scope block prints are output only and are left out.
\<close>

definition finalize_host :: "UrlUtils \<Rightarrow> MergedArgs \<Rightarrow> error + string" where
  "finalize_host utils input =
     (if truthy (merged_url input) then
        validateAndParseSentryUrlThrows utils (text_of (merged_url input))
      else if truthy (merged_host input) then
        (case validateSentryHostThrows utils (text_of (merged_host input)) of
           Inl e \<Rightarrow> Inl e
         | Inr _ \<Rightarrow> Inr (text_of (merged_host input)))
      else Inr ''sentry.io'')"

definition finalize_scopes :: "MergedArgs \<Rightarrow> error + Scope set option" where
  "finalize_scopes input =
     (if merged_allScopes input = Some True then Inr (Some (set ALL_SCOPES))
      else if truthy (merged_scopes input) \<or> truthy (merged_addScopes input) then
        (if truthy (merged_scopes input) then
           (case parseScopes (UString (text_of (merged_scopes input))) of
              (valid, invalid) \<Rightarrow>
                if length invalid > 0 then Inl (Error (formatInvalid invalid None))
                else if valid = {} then
                  Inl (Error ''Error: Invalid scopes provided. No valid scopes found.'')
                else Inr (resolveScopes (Some valid) None DEFAULT_SCOPES))
         else if truthy (merged_addScopes input) then
           (case parseScopes (UString (text_of (merged_addScopes input))) of
              (valid, invalid) \<Rightarrow>
                if length invalid > 0 then Inl (Error (formatInvalid invalid None))
                else if valid = {} then
                  Inl (Error ''Error: Invalid additional scopes provided. No valid scopes found.'')
                else Inr (resolveScopes None (Some valid) DEFAULT_SCOPES))
         else Inr None)
      else Inr None)"

definition finalize_skills :: "MergedArgs \<Rightarrow> error + Skill set option" where
  "finalize_skills input =
     (if truthy (merged_skills input) then
        (case parseSkills (UString (text_of (merged_skills input))) of
           (valid, invalid) \<Rightarrow>
             if length invalid > 0 then Inl (Error (formatInvalidSkills invalid None))
             else if valid = {} then
               Inl (Error ''Error: Invalid skills provided. No valid skills found.'')
             else Inr (Some valid))
      else Inr (Some (set (map fst SKILLS))))"

definition finalize_openaiBaseUrl :: "UrlUtils \<Rightarrow> MergedArgs \<Rightarrow> error + string option" where
  "finalize_openaiBaseUrl utils input =
     (if truthy (merged_openaiBaseUrl input) then
        (case validateOpenAiBaseUrlThrows utils (text_of (merged_openaiBaseUrl input)) of
           Inl e \<Rightarrow> Inl e
         | Inr resolved \<Rightarrow> Inr (Some resolved))
      else Inr None)"

definition finalize :: "UrlUtils \<Rightarrow> MergedArgs \<Rightarrow> error + ResolvedConfig" where
  "finalize utils input =
     (if \<not> truthy (merged_accessToken input) then
        Inl (Error ''Error: No access token was provided. Pass one with `--access-token` or via `SENTRY_ACCESS_TOKEN`.'')
      else
        (case finalize_host utils input of
           Inl e \<Rightarrow> Inl e
         | Inr host \<Rightarrow>
        (case finalize_scopes input of
           Inl e \<Rightarrow> Inl e
         | Inr scopes \<Rightarrow>
        (case finalize_skills input of
           Inl e \<Rightarrow> Inl e
         | Inr skills \<Rightarrow>
        (case finalize_openaiBaseUrl utils input of
           Inl e \<Rightarrow> Inl e
         | Inr resolvedOpenAiBaseUrl \<Rightarrow>
             Inr \<lparr>accessToken = text_of (merged_accessToken input),
                  sentryHost = host,
                  mcpUrl = merged_mcpUrl input,
                  sentryDsn = merged_sentryDsn input,
                  openaiBaseUrl = resolvedOpenAiBaseUrl,
                  openaiModel = merged_openaiModel input,
                  finalScopes = scopes,
                  finalSkills = skills,
                  cfg_organizationSlug = merged_organizationSlug input,
                  cfg_projectSlug = merged_projectSlug input\<rparr>)))))"

section \<open>OAuth bootstrap (packages/mcp-test-client/src/auth/oauth.ts)\<close>

text \<open>
  \<open>authenticate\<close> is asynchronous code that runs one step after another; it is
  modelled by explicit state passing. The state \<open>World\<close> holds what the method reads
  and writes: the field \<open>this.server\<close>, the callback port of the loopback interface,
  the two caches of the \<open>ConfigManager\<close> (keyed by host), and the log of the requests
  sent to the OAuth server.

  \<open>server\<close> is \<open>None\<close> for \<open>null\<close> and \<open>Some l\<close> for a \<open>Server\<close> object, where
  \<open>l\<close> says whether that object is listening on the callback port. \<open>portInUse\<close>
  says whether the port is bound, by this object or by anything else.
\<close>

datatype HttpRequest =
    RegisterClient
  | TokenExchange string string string

record World =
  server :: "bool option"
  portInUse :: bool
  oauthClientIds :: "string \<rightharpoonup> string"
  accessTokens :: "string \<rightharpoonup> string \<times> nat option"
  requests :: "HttpRequest list"

record OAuthConfig =
  mcpHost :: string
  oauth_scopes :: "string list"

record TokenResponse =
  access_token :: string
  token_type :: string
  expires_in :: "nat option"
  refresh_token :: "string option"
  token_scope :: "string option"

text \<open>
  A request that reaches the callback listener: whether it has a URL at all, the path,
  and the four query parameters the handler reads (\<open>None\<close> when
  \<open>searchParams.get\<close> returns \<open>null\<close>).
\<close>

record CallbackRequest =
  has_url :: bool
  pathname :: string
  query_code :: "string option"
  query_state :: "string option"
  query_error :: "string option"
  query_error_description :: "string option"

text \<open>
  What one call of \<open>authenticate\<close> meets outside the program: the answer to the
  registration request (the client id, or the error \<open>registerClient\<close> throws), the
  outcome of the two cache writes (\<open>None\<close> when the write succeeds), the random PKCE
  verifier with its challenge and the random state, whether the authorization URL built
  from \<open>mcpHost\<close> is one the \<open>URL\<close> constructor accepts, the requests that arrive at
  the listener from the moment \<open>waitForCallback\<close> is called, and the answer to the
  token request (the token response, or the error \<open>exchangeCodeForToken\<close> throws).
  Opening the browser is left out: its failure is caught and ignored.
\<close>

record Env =
  registerResponse :: "error + string"
  setOAuthClientIdError :: "error option"
  setAccessTokenError :: "error option"
  verifier :: string
  challenge :: string
  generatedState :: string
  authUrlValid :: bool
  callbackRequests :: "CallbackRequest list"
  tokenResponse :: "error + TokenResponse"

text \<open>
  The request handler of the listener. It answers with a status code and may settle the
  pending promise of \<open>waitForCallback\<close>: resolve it with the code and the state, or
  reject it.
\<close>

datatype Settlement = Resolve string string | Reject error

definition handleRequest :: "CallbackRequest \<Rightarrow> nat \<times> Settlement option" where
  "handleRequest req =
     (if \<not> has_url req then (400, None)
      else if pathname req = ''/callback'' then
        (if truthy (query_error req) then
           (let errorDescription =
                  (if truthy (query_error_description req)
                   then text_of (query_error_description req)
                   else ''Unknown error'')
            in (400, Some (Reject (Error
                  (''OAuth error: '' @ text_of (query_error req) @ '' - '' @ errorDescription)))))
         else if \<not> truthy (query_code req) \<or> \<not> truthy (query_state req) then
           (400, Some (Reject (Error ''Missing code or state parameter'')))
         else
           (200, Some (Resolve (text_of (query_code req)) (text_of (query_state req)))))
      else (404, None))"

text \<open>
  \<open>waitForCallback\<close>: the promise settles at the first request whose handling settles
  it. \<open>None\<close>: no request settles it and the promise stays pending.
\<close>

fun waitForCallback :: "CallbackRequest list \<Rightarrow> Settlement option" where
  "waitForCallback [] = None"
| "waitForCallback (req # rest) =
     (case snd (handleRequest req) of
        Some settled \<Rightarrow> Some settled
      | None \<Rightarrow> waitForCallback rest)"

definition getOrRegisterClientId :: "OAuthConfig \<Rightarrow> Env \<Rightarrow> World \<Rightarrow> (error + string) \<times> World" where
  "getOrRegisterClientId config env w =
     (if truthy (oauthClientIds w (mcpHost config)) then
        (Inr (text_of (oauthClientIds w (mcpHost config))), w)
      else
        (let w1 = w\<lparr>requests := requests w @ [RegisterClient]\<rparr>
         in case registerResponse env of
              Inl (Error msg) \<Rightarrow> (Inl (Error (''Client registration failed: '' @ msg)), w1)
            | Inr clientId \<Rightarrow>
                (case setOAuthClientIdError env of
                   Some (Error msg) \<Rightarrow>
                     (Inl (Error (''Client registration failed: '' @ msg)), w1)
                 | None \<Rightarrow>
                     (Inr clientId,
                      w1\<lparr>oauthClientIds := (oauthClientIds w1)(mcpHost config \<mapsto> clientId)\<rparr>))))"

text \<open>
  \<open>startCallbackServer\<close> stores a new \<open>Server\<close> object in \<open>this.server\<close> and asks it
  to listen on the callback port. Listening fails when the port is bound already; the
  error is the one the \<open>error\<close> event of the server carries.
\<close>

definition startCallbackServer :: "World \<Rightarrow> (error + unit) \<times> World" where
  "startCallbackServer w =
     (if portInUse w then
        (Inl (Error ''listen EADDRINUSE: address already in use''), w\<lparr>server := Some False\<rparr>)
      else (Inr (), w\<lparr>server := Some True, portInUse := True\<rparr>))"

text \<open>
  The \<open>finally\<close> block: \<open>if (this.server) { this.server.close(); this.server = null }\<close>.
  Closing a listening server releases the port.
\<close>

definition closeServer :: "World \<Rightarrow> World" where
  "closeServer w =
     (case server w of
        None \<Rightarrow> w
      | Some listening \<Rightarrow>
          w\<lparr>server := None, portInUse := (if listening then False else portInUse w)\<rparr>)"

text \<open>How a call ends: it returns a value, throws, or never settles.\<close>

datatype 'a Outcome = Returns 'a | Throws error | Pending

text \<open>
  The \<open>try\<close> block of \<open>authenticate\<close>, without its \<open>finally\<close>: wait for the
  callback, verify the state, exchange the code, cache the token.
\<close>

definition authenticate_try :: "OAuthConfig \<Rightarrow> Env \<Rightarrow> string \<Rightarrow> World \<Rightarrow> string Outcome \<times> World" where
  "authenticate_try config env clientId w =
     (case waitForCallback (callbackRequests env) of
        None \<Rightarrow> (Pending, w)
      | Some (Reject e) \<Rightarrow> (Throws e, w)
      | Some (Resolve code receivedState) \<Rightarrow>
          if receivedState \<noteq> generatedState env then
            (Throws (Error ''State mismatch - possible CSRF attack''), w)
          else
            (let w1 = w\<lparr>requests := requests w @ [TokenExchange code (verifier env) clientId]\<rparr>
             in case tokenResponse env of
                  Inl e \<Rightarrow> (Throws e, w1)
                | Inr response \<Rightarrow>
                    (case setAccessTokenError env of
                       Some e \<Rightarrow> (Throws e, w1)
                     | None \<Rightarrow>
                         (Returns (access_token response),
                          w1\<lparr>accessTokens := (accessTokens w1)
                                (mcpHost config \<mapsto> (access_token response, expires_in response))\<rparr>))))"

definition authenticate :: "OAuthConfig \<Rightarrow> Env \<Rightarrow> World \<Rightarrow> string Outcome \<times> World" where
  "authenticate config env w =
     (case getOrRegisterClientId config env w of
        (Inl e, w1) \<Rightarrow> (Throws e, w1)
      | (Inr clientId, w1) \<Rightarrow>
          (case startCallbackServer w1 of
             (Inl e, w2) \<Rightarrow> (Throws e, w2)
           | (Inr _, w2) \<Rightarrow>
               if \<not> authUrlValid env then (Throws (Error ''Invalid URL''), w2)
               else
                 (case authenticate_try config env clientId w2 of
                    (Pending, w3) \<Rightarrow> (Pending, w3)
                  | (outcome, w3) \<Rightarrow> (outcome, closeServer w3))))"

section \<open>Auxiliary facts about messages and parsers\<close>

text \<open>
  The white space of \<open>trim\<close> by code units: a \<open>char\<close> is a code unit below 256, and
  \<open>isWhiteSpace\<close> holds of exactly the seven ECMAScript WhiteSpace and LineTerminator
  code points in that range.
\<close>

lemma char_eq_code_unit: "c = d \<longleftrightarrow> (of_char c :: nat) = of_char d"
  by auto

lemma isWhiteSpace_code_units:
  "isWhiteSpace c \<longleftrightarrow> (of_char c :: nat) \<in> {0x09, 0x0A, 0x0B, 0x0C, 0x0D, 0x20, 0xA0}"
proof -
  have "c = CHR 0x09 \<longleftrightarrow> (of_char c :: nat) = 0x09"
    "c = CHR 0x0A \<longleftrightarrow> (of_char c :: nat) = 0x0A"
    "c = CHR 0x0B \<longleftrightarrow> (of_char c :: nat) = 0x0B"
    "c = CHR 0x0C \<longleftrightarrow> (of_char c :: nat) = 0x0C"
    "c = CHR 0x0D \<longleftrightarrow> (of_char c :: nat) = 0x0D"
    "c = CHR '' '' \<longleftrightarrow> (of_char c :: nat) = 0x20"
    "c = CHR 0xA0 \<longleftrightarrow> (of_char c :: nat) = 0xA0"
    by (simp_all add: char_eq_code_unit [of c])
  then show ?thesis
    by (simp add: isWhiteSpace_def)
qed

lemma code_unit_range: "(of_char c :: nat) < 256"
  by simp

lemma trim_examples:
  "trim (CHR 0xA0 # '' org:read'' @ [CHR 0x09, CHR 0xA0, CHR 0x0A]) = ''org:read''"
  "trim ''a b'' = ''a b''"
  "trim '' '' = []"
  by code_simp+







lemma parseScopes_loop_valid:
  "fst (parseScopes_loop tokens (valid, invalid))
     = valid \<union> {scope. \<exists>raw \<in> set tokens. ALL_SCOPES_SET raw = Some scope}"
  by (induction tokens arbitrary: valid invalid) (auto split: option.splits)






section \<open>Properties of the scope model\<close>

lemma SCOPE_HIERARCHY_refl: "s \<in> SCOPE_HIERARCHY s"
  by (cases s) simp_all

lemma SCOPE_HIERARCHY_trans:
  "t \<in> SCOPE_HIERARCHY s \<Longrightarrow> SCOPE_HIERARCHY t \<subseteq> SCOPE_HIERARCHY s"
  by (cases s) auto

lemma expandScopes_extensive: "S \<subseteq> expandScopes S"
  using SCOPE_HIERARCHY_refl by (auto simp: expandScopes_def)

lemma expandScopes_idem: "expandScopes (expandScopes S) = expandScopes S"
proof
  show "expandScopes (expandScopes S) \<subseteq> expandScopes S"
    using SCOPE_HIERARCHY_trans by (fastforce simp: expandScopes_def)
  show "expandScopes S \<subseteq> expandScopes (expandScopes S)"
    by (rule expandScopes_extensive)
qed

lemma expandScopes_single: "expandScopes {s} = SCOPE_HIERARCHY s"
  by (simp add: expandScopes_def)

text \<open>
  C9. Expansion is idempotent, the expansion of every scope (the leaf
  \<open>project:releases\<close> included) contains the scope itself, and for each of the five
  hierarchical resources the expansion of \<open>admin\<close> contains that of \<open>write\<close>, which
  contains that of \<open>read\<close>.
\<close>

theorem expandScopes_idempotent_hierarchy:
  "expandScopes (expandScopes S) = expandScopes S
   \<and> s \<in> expandScopes {s}
   \<and> expandScopes {OrgRead} \<subseteq> expandScopes {OrgWrite}
   \<and> expandScopes {OrgWrite} \<subseteq> expandScopes {OrgAdmin}
   \<and> expandScopes {ProjectRead} \<subseteq> expandScopes {ProjectWrite}
   \<and> expandScopes {ProjectWrite} \<subseteq> expandScopes {ProjectAdmin}
   \<and> expandScopes {TeamRead} \<subseteq> expandScopes {TeamWrite}
   \<and> expandScopes {TeamWrite} \<subseteq> expandScopes {TeamAdmin}
   \<and> expandScopes {MemberRead} \<subseteq> expandScopes {MemberWrite}
   \<and> expandScopes {MemberWrite} \<subseteq> expandScopes {MemberAdmin}
   \<and> expandScopes {EventRead} \<subseteq> expandScopes {EventWrite}
   \<and> expandScopes {EventWrite} \<subseteq> expandScopes {EventAdmin}"
  by (simp add: expandScopes_idem expandScopes_single SCOPE_HIERARCHY_refl)

theorem expandScopes_idempotent_hierarchy_witness:
  "expandScopes (expandScopes {EventWrite, ProjectReleases})
     = {EventRead, EventWrite, ProjectReleases}
   \<and> ProjectReleases \<in> expandScopes {ProjectReleases}"
proof -
  have e: "expandScopes {EventWrite, ProjectReleases} = {EventRead, EventWrite, ProjectReleases}"
    by (auto simp: expandScopes_def)
  show ?thesis
    using expandScopes_idempotent_hierarchy [of "{EventWrite, ProjectReleases}" ProjectReleases] e
    by simp
qed

section \<open>Auxiliary facts about tool registration\<close>

lemma configureServer_names:
  "map registered_name (configureServer ctx toolsToRegister)
     = map tool_name (filter (allowed ctx) toolsToRegister)"
  by (simp add: configureServer_def comp_def)

lemma hasRequiredSkills_iff:
  "hasRequiredSkills (Some S) required \<longleftrightarrow> required \<noteq> [] \<and> set required \<inter> S \<noteq> {}"
  by (auto simp: hasRequiredSkills_def list_ex_iff)

lemma allowed_skills_mode:
  "grantedSkills ctx = Some S \<Longrightarrow>
   allowed ctx tool \<longleftrightarrow>
     (case requiredSkills tool of None \<Rightarrow> False | Some required \<Rightarrow> required \<noteq> [] \<and> set required \<inter> S \<noteq> {})"
  by (auto simp: allowed_def hasRequiredSkills_iff split: option.splits)

lemma hasRequiredScopes_iff:
  "hasRequiredScopes S required \<longleftrightarrow> set required \<subseteq> expandScopes S"
  by (auto simp: hasRequiredScopes_def list_all_iff)

lemma isToolAllowed_iff:
  "isToolAllowed required S \<longleftrightarrow> (case required of None \<Rightarrow> True | Some rs \<Rightarrow> set rs \<subseteq> expandScopes S)"
  by (auto simp: isToolAllowed_def hasRequiredScopes_iff split: option.splits)

section \<open>Properties of tool registration\<close>

text \<open>
  C2. When the context carries a skill grant \<open>S\<close>, a tool is registered exactly when
  its \<open>requiredSkills\<close> list is non-empty and has an element in \<open>S\<close>; the names
  registered are those of the catalogue's tools with that property, in order.
  \<open>hasRequiredSkills\<close> answers false on the empty list whatever \<open>S\<close> is, and a tool
  with \<open>requiredSkills = []\<close> is not registered.
\<close>

theorem skills_mode_any_of:
  assumes "grantedSkills ctx = Some S"
  shows "(allowed ctx tool \<longleftrightarrow>
            (\<exists>required. requiredSkills tool = Some required \<and> required \<noteq> []
                \<and> set required \<inter> S \<noteq> {}))
         \<and> map registered_name (configureServer ctx toolsToRegister)
             = map tool_name
                 (filter (\<lambda>t. \<exists>required. requiredSkills t = Some required \<and> required \<noteq> []
                                \<and> set required \<inter> S \<noteq> {}) toolsToRegister)
         \<and> hasRequiredSkills (Some S) [] = False
         \<and> (requiredSkills tool = Some [] \<longrightarrow> \<not> allowed ctx tool)"
proof -
  have a: "allowed ctx t \<longleftrightarrow>
            (\<exists>required. requiredSkills t = Some required \<and> required \<noteq> []
                \<and> set required \<inter> S \<noteq> {})" for t
    using allowed_skills_mode [OF assms, of t] by (cases "requiredSkills t") auto
  have "filter (allowed ctx) toolsToRegister
          = filter (\<lambda>t. \<exists>required. requiredSkills t = Some required \<and> required \<noteq> []
                                \<and> set required \<inter> S \<noteq> {}) toolsToRegister"
    by (rule filter_cong) (simp_all add: a)
  then show ?thesis
    using a [of tool] by (auto simp: configureServer_names hasRequiredSkills_iff)
qed


theorem skills_mode_any_of_witness:
  "grantedSkills \<lparr>grantedSkills = Some {''inspect'', ''docs''}, grantedScopes = None,
       constraints = \<lparr>organizationSlug = None, projectSlug = None, regionUrl = None\<rparr>\<rparr>
     = Some {''inspect'', ''docs''}
   \<and> map registered_name
        (configureServer
           \<lparr>grantedSkills = Some {''inspect'', ''docs''}, grantedScopes = None,
            constraints = \<lparr>organizationSlug = None, projectSlug = None, regionUrl = None\<rparr>\<rparr>
           [\<lparr>tool_name = ''find_teams'', inputSchema = [''organizationSlug''],
             requiredSkills = Some [''inspect'', ''triage''], requiredScopes = Some [TeamRead]\<rparr>,
            \<lparr>tool_name = ''use_sentry'', inputSchema = [''request''],
             requiredSkills = Some [], requiredScopes = Some []\<rparr>,
            \<lparr>tool_name = ''create_project'', inputSchema = [''organizationSlug''],
             requiredSkills = Some [''project-management''], requiredScopes = Some [ProjectWrite]\<rparr>])
      = [''find_teams'']"
proof -
  let ?ctx = "\<lparr>grantedSkills = Some {''inspect'', ''docs''}, grantedScopes = None,
       constraints = \<lparr>organizationSlug = None, projectSlug = None, regionUrl = None\<rparr>\<rparr>"
  have g: "grantedSkills ?ctx = Some {''inspect'', ''docs''}" by simp
  show ?thesis
    using skills_mode_any_of [OF g] by simp
qed


text \<open>
  C3. When no skill grant is present and the scope grant is \<open>S\<close>, a tool is registered
  exactly when every scope of its \<open>requiredScopes\<close> is in the expansion of \<open>S\<close>, which
  holds for an empty and for an undefined list. When neither grant is present, no tool is
  registered.
\<close>

theorem scopes_mode_all_of:
  "(grantedSkills ctx = None \<and> grantedScopes ctx = Some S \<longrightarrow>
      (allowed ctx tool \<longleftrightarrow>
         (case requiredScopes tool of
            None \<Rightarrow> True
          | Some required \<Rightarrow> set required \<subseteq> expandScopes S))
      \<and> map registered_name (configureServer ctx toolsToRegister)
          = map tool_name
              (filter (\<lambda>t. case requiredScopes t of
                              None \<Rightarrow> True
                            | Some required \<Rightarrow> set required \<subseteq> expandScopes S)
                 toolsToRegister))
   \<and> (grantedSkills ctx = None \<and> grantedScopes ctx = None \<longrightarrow>
        \<not> allowed ctx tool \<and> configureServer ctx toolsToRegister = [])"
proof (intro conjI impI)
  assume h: "grantedSkills ctx = None \<and> grantedScopes ctx = Some S"
  have a: "allowed ctx t \<longleftrightarrow>
             (case requiredScopes t of None \<Rightarrow> True
              | Some required \<Rightarrow> set required \<subseteq> expandScopes S)" for t
    using h by (simp add: allowed_def isToolAllowed_iff)
  show "allowed ctx tool \<longleftrightarrow>
         (case requiredScopes tool of None \<Rightarrow> True
          | Some required \<Rightarrow> set required \<subseteq> expandScopes S)"
    by (rule a)
  have "filter (allowed ctx) toolsToRegister
          = filter (\<lambda>t. case requiredScopes t of None \<Rightarrow> True
                         | Some required \<Rightarrow> set required \<subseteq> expandScopes S) toolsToRegister"
    by (rule filter_cong) (simp_all add: a)
  then show "map registered_name (configureServer ctx toolsToRegister)
          = map tool_name
              (filter (\<lambda>t. case requiredScopes t of None \<Rightarrow> True
                            | Some required \<Rightarrow> set required \<subseteq> expandScopes S)
                 toolsToRegister)"
    by (simp add: configureServer_names)
next
  assume h: "grantedSkills ctx = None \<and> grantedScopes ctx = None"
  then have a: "\<not> allowed ctx t" for t
    by (simp add: allowed_def)
  show "\<not> allowed ctx tool" by (rule a)
  show "configureServer ctx toolsToRegister = []"
    by (simp add: configureServer_def a)
qed

theorem scopes_mode_all_of_witness:
  "map registered_name
     (configureServer
        \<lparr>grantedSkills = None, grantedScopes = Some {EventWrite},
         constraints = \<lparr>organizationSlug = None, projectSlug = None, regionUrl = None\<rparr>\<rparr>
        [\<lparr>tool_name = ''update_issue'', inputSchema = [''issueId''],
          requiredSkills = Some [''triage''], requiredScopes = Some [EventRead, EventWrite]\<rparr>,
         \<lparr>tool_name = ''whoami'', inputSchema = [],
          requiredSkills = Some [''inspect''], requiredScopes = Some []\<rparr>,
         \<lparr>tool_name = ''legacy'', inputSchema = [],
          requiredSkills = None, requiredScopes = None\<rparr>,
         \<lparr>tool_name = ''create_project'', inputSchema = [''organizationSlug''],
          requiredSkills = Some [''project-management''],
          requiredScopes = Some [ProjectWrite, TeamRead]\<rparr>])
     = [''update_issue'', ''whoami'', ''legacy'']
   \<and> configureServer
        \<lparr>grantedSkills = None, grantedScopes = None,
         constraints = \<lparr>organizationSlug = None, projectSlug = None, regionUrl = None\<rparr>\<rparr>
        [\<lparr>tool_name = ''whoami'', inputSchema = [],
          requiredSkills = Some [''inspect''], requiredScopes = Some []\<rparr>]
     = []"
proof -
  let ?cs = "\<lparr>organizationSlug = None, projectSlug = None, regionUrl = None\<rparr>"
  let ?ctx = "\<lparr>grantedSkills = None, grantedScopes = Some {EventWrite}, constraints = ?cs\<rparr>"
  let ?cnone = "\<lparr>grantedSkills = None, grantedScopes = None, constraints = ?cs\<rparr>"
  have e: "expandScopes {EventWrite} = {EventRead, EventWrite}"
    by (auto simp: expandScopes_def)
  have h: "grantedSkills ?ctx = None \<and> grantedScopes ?ctx = Some {EventWrite}" by simp
  have hn: "grantedSkills ?cnone = None \<and> grantedScopes ?cnone = None" by simp
  let ?whoami = "\<lparr>tool_name = ''whoami'', inputSchema = [],
          requiredSkills = Some [''inspect''], requiredScopes = Some []\<rparr>"
  let ?tools = "[\<lparr>tool_name = ''update_issue'', inputSchema = [''issueId''],
          requiredSkills = Some [''triage''], requiredScopes = Some [EventRead, EventWrite]\<rparr>,
         ?whoami,
         \<lparr>tool_name = ''legacy'', inputSchema = [],
          requiredSkills = None, requiredScopes = None\<rparr>,
         \<lparr>tool_name = ''create_project'', inputSchema = [''organizationSlug''],
          requiredSkills = Some [''project-management''],
          requiredScopes = Some [ProjectWrite, TeamRead]\<rparr>]"
  show ?thesis
    using scopes_mode_all_of [of ?ctx "{EventWrite}" ?whoami ?tools] h
      scopes_mode_all_of [of ?cnone "{}" ?whoami "[?whoami]"] hn
    by (simp add: e)
qed

text \<open>
  C10. A skill grant that is present but empty still selects skills mode: no tool is
  registered, and the scope grant plays no part, whatever it is replaced with.
\<close>

theorem empty_skill_grant_exposes_nothing:
  assumes "grantedSkills ctx = Some {}"
  shows "configureServer ctx toolsToRegister = []
         \<and> \<not> allowed ctx tool
         \<and> allowed (ctx\<lparr>grantedScopes := scopes\<rparr>) tool = allowed ctx tool
         \<and> configureServer (ctx\<lparr>grantedScopes := scopes\<rparr>) toolsToRegister = []"
proof -
  have a: "\<not> allowed ctx t" for t
    using assms by (simp add: allowed_def hasRequiredSkills_iff split: option.splits)
  have b: "\<not> allowed (ctx\<lparr>grantedScopes := scopes\<rparr>) t" for t
    using assms by (simp add: allowed_def hasRequiredSkills_iff split: option.splits)
  show ?thesis
    by (simp add: configureServer_def a b)
qed

theorem empty_skill_grant_exposes_nothing_witness:
  "configureServer
     \<lparr>grantedSkills = Some {}, grantedScopes = Some {OrgAdmin, EventAdmin},
      constraints = \<lparr>organizationSlug = None, projectSlug = None, regionUrl = None\<rparr>\<rparr>
     [\<lparr>tool_name = ''whoami'', inputSchema = [],
       requiredSkills = Some [''inspect'', ''seer'', ''docs'', ''triage'', ''project-management''],
       requiredScopes = Some []\<rparr>,
      \<lparr>tool_name = ''update_issue'', inputSchema = [''issueId''],
       requiredSkills = Some [''triage''], requiredScopes = Some [EventWrite]\<rparr>]
   = []"
proof -
  let ?ctx = "\<lparr>grantedSkills = Some {}, grantedScopes = Some {OrgAdmin, EventAdmin},
      constraints = \<lparr>organizationSlug = None, projectSlug = None, regionUrl = None\<rparr>\<rparr>"
  have g: "grantedSkills ?ctx = Some {}" by simp
  show ?thesis
    using empty_skill_grant_exposes_nothing [OF g] by simp
qed

section \<open>Properties of constraint injection\<close>

lemma applicableConstraints_keys:
  "applicableConstraints ctx tool key = None
     \<longleftrightarrow> key \<notin> set (getConstraintKeysToFilter (constraints ctx) (inputSchema tool))"
  by (simp add: applicableConstraints_def getConstraintKeysToFilter_def map_of_eq_None_iff
      image_image case_prod_unfold)

lemma applicableConstraints_Some:
  "applicableConstraints ctx tool key = Some v \<Longrightarrow>
     \<exists>c. v = JString c
       \<and> (key, c) \<in> set (getConstraintParametersToInject (constraints ctx) (inputSchema tool))"
  by (auto simp: applicableConstraints_def dest!: map_of_SomeD)

lemma paramsWithConstraints_constrained:
  assumes "key \<in> set (getConstraintKeysToFilter (constraints ctx) (inputSchema tool))"
  shows "\<exists>c. paramsWithConstraints ctx tool params key = Some (JString c)
           \<and> (key, c) \<in> set (getConstraintParametersToInject (constraints ctx) (inputSchema tool))"
proof -
  obtain v where v: "applicableConstraints ctx tool key = Some v"
    using assms applicableConstraints_keys [of ctx tool key]
    by (cases "applicableConstraints ctx tool key") auto
  from applicableConstraints_Some [OF v] obtain c where
    "v = JString c"
    "(key, c) \<in> set (getConstraintParametersToInject (constraints ctx) (inputSchema tool))"
    by blast
  with v show ?thesis
    by (simp add: paramsWithConstraints_def map_add_def)
qed

lemma paramsWithConstraints_free:
  assumes "key \<notin> set (getConstraintKeysToFilter (constraints ctx) (inputSchema tool))"
  shows "paramsWithConstraints ctx tool params key = params key"
proof -
  from assms have "applicableConstraints ctx tool key = None"
    by (simp add: applicableConstraints_keys)
  then show ?thesis
    by (simp add: paramsWithConstraints_def map_add_def)
qed

lemma paramsWithConstraints_organization:
  assumes "truthy (organizationSlug (constraints ctx))"
    and "''organizationSlug'' \<in> set (inputSchema tool)"
  shows "paramsWithConstraints ctx tool params ''organizationSlug''
           = Some (JString (text_of (organizationSlug (constraints ctx))))"
    and "''organizationSlug'' \<in> set (getConstraintKeysToFilter (constraints ctx) (inputSchema tool))"
  using assms
  by (simp_all add: paramsWithConstraints_def map_add_def applicableConstraints_def
      getConstraintKeysToFilter_def getConstraintParametersToInject_def)

lemma configureServer_entry:
  assumes "registered \<in> set (configureServer ctx toolsToRegister)"
  shows "\<exists>tool \<in> set toolsToRegister. allowed ctx tool
           \<and> registered_name registered = tool_name tool
           \<and> filteredInputSchema registered
               = filter (\<lambda>key. key \<notin> set (getConstraintKeysToFilter (constraints ctx) (inputSchema tool)))
                   (inputSchema tool)
           \<and> callback registered = paramsWithConstraints ctx tool"
  using assms by (auto simp: configureServer_def)

text \<open>
  C1, as amended. Every tool that \<open>configureServer\<close> registers comes from an allowed
  tool of the catalogue, and for it: a declared parameter that matches an active
  constraint is removed from the advertised schema, and the handler receives the
  constrained value for it whatever the caller supplied (for \<open>organizationSlug\<close>, the
  session's organization); every other key stays in the schema if it was declared, and
  the handler receives the caller's value for it.
\<close>

theorem paramsWithConstraints_constraint_wins:
  "\<forall>registered \<in> set (configureServer ctx toolsToRegister).
     \<exists>tool \<in> set toolsToRegister.
        allowed ctx tool
      \<and> registered_name registered = tool_name tool
      \<and> (\<forall>params key.
            key \<in> set (getConstraintKeysToFilter (constraints ctx) (inputSchema tool)) \<longrightarrow>
              key \<notin> set (filteredInputSchema registered)
              \<and> (\<exists>c. callback registered params key = Some (JString c)
                    \<and> (key, c) \<in> set (getConstraintParametersToInject
                                          (constraints ctx) (inputSchema tool))))
      \<and> (\<forall>params key.
            key \<notin> set (getConstraintKeysToFilter (constraints ctx) (inputSchema tool)) \<longrightarrow>
              callback registered params key = params key
              \<and> (key \<in> set (filteredInputSchema registered) \<longleftrightarrow> key \<in> set (inputSchema tool)))
      \<and> (truthy (organizationSlug (constraints ctx))
            \<and> ''organizationSlug'' \<in> set (inputSchema tool) \<longrightarrow>
              ''organizationSlug'' \<notin> set (filteredInputSchema registered)
              \<and> (\<forall>params. callback registered params ''organizationSlug''
                     = Some (JString (text_of (organizationSlug (constraints ctx))))))"
proof
  fix registered
  assume "registered \<in> set (configureServer ctx toolsToRegister)"
  from configureServer_entry [OF this] obtain tool where
    t: "tool \<in> set toolsToRegister" "allowed ctx tool"
      "registered_name registered = tool_name tool"
    and f: "filteredInputSchema registered
               = filter (\<lambda>key. key \<notin> set (getConstraintKeysToFilter (constraints ctx) (inputSchema tool)))
                   (inputSchema tool)"
    and c: "callback registered = paramsWithConstraints ctx tool"
    by blast
  have constrained: "\<forall>params key.
            key \<in> set (getConstraintKeysToFilter (constraints ctx) (inputSchema tool)) \<longrightarrow>
              key \<notin> set (filteredInputSchema registered)
              \<and> (\<exists>c. callback registered params key = Some (JString c)
                    \<and> (key, c) \<in> set (getConstraintParametersToInject
                                          (constraints ctx) (inputSchema tool)))"
    using paramsWithConstraints_constrained [of _ ctx tool] by (simp add: f c)
  have free: "\<forall>params key.
            key \<notin> set (getConstraintKeysToFilter (constraints ctx) (inputSchema tool)) \<longrightarrow>
              callback registered params key = params key
              \<and> (key \<in> set (filteredInputSchema registered) \<longleftrightarrow> key \<in> set (inputSchema tool))"
    using paramsWithConstraints_free [of _ ctx tool] by (simp add: f c)
  have org: "truthy (organizationSlug (constraints ctx))
            \<and> ''organizationSlug'' \<in> set (inputSchema tool) \<longrightarrow>
              ''organizationSlug'' \<notin> set (filteredInputSchema registered)
              \<and> (\<forall>params. callback registered params ''organizationSlug''
                     = Some (JString (text_of (organizationSlug (constraints ctx)))))"
    using paramsWithConstraints_organization [of ctx tool] by (simp add: f c)
  from t constrained free org
  show "\<exists>tool \<in> set toolsToRegister.
        allowed ctx tool
      \<and> registered_name registered = tool_name tool
      \<and> (\<forall>params key.
            key \<in> set (getConstraintKeysToFilter (constraints ctx) (inputSchema tool)) \<longrightarrow>
              key \<notin> set (filteredInputSchema registered)
              \<and> (\<exists>c. callback registered params key = Some (JString c)
                    \<and> (key, c) \<in> set (getConstraintParametersToInject
                                          (constraints ctx) (inputSchema tool))))
      \<and> (\<forall>params key.
            key \<notin> set (getConstraintKeysToFilter (constraints ctx) (inputSchema tool)) \<longrightarrow>
              callback registered params key = params key
              \<and> (key \<in> set (filteredInputSchema registered) \<longleftrightarrow> key \<in> set (inputSchema tool)))
      \<and> (truthy (organizationSlug (constraints ctx))
            \<and> ''organizationSlug'' \<in> set (inputSchema tool) \<longrightarrow>
              ''organizationSlug'' \<notin> set (filteredInputSchema registered)
              \<and> (\<forall>params. callback registered params ''organizationSlug''
                     = Some (JString (text_of (organizationSlug (constraints ctx))))))"
    by blast
qed

theorem paramsWithConstraints_constraint_wins_witness:
  "map registered_name
     (configureServer
        \<lparr>grantedSkills = None, grantedScopes = Some {TeamRead},
        constraints = \<lparr>organizationSlug = Some ''c'', projectSlug = None, regionUrl = None\<rparr>\<rparr>
        [\<lparr>tool_name = ''find_teams'', inputSchema = [''organizationSlug'', ''query''],
        requiredSkills = Some [''inspect''], requiredScopes = Some [TeamRead]\<rparr>])
     = [''find_teams'']
   \<and> map filteredInputSchema
     (configureServer
        \<lparr>grantedSkills = None, grantedScopes = Some {TeamRead},
        constraints = \<lparr>organizationSlug = Some ''c'', projectSlug = None, regionUrl = None\<rparr>\<rparr>
        [\<lparr>tool_name = ''find_teams'', inputSchema = [''organizationSlug'', ''query''],
        requiredSkills = Some [''inspect''], requiredScopes = Some [TeamRead]\<rparr>])
     = [[''query'']]
   \<and> list_all
       (\<lambda>registered.
          callback registered [''organizationSlug'' \<mapsto> JString ''explicit'', ''query'' \<mapsto> JString ''backend'']
              ''organizationSlug''
            = Some (JString ''c'')
          \<and> callback registered [''organizationSlug'' \<mapsto> JString ''explicit'', ''query'' \<mapsto> JString ''backend'']
              ''query''
            = Some (JString ''backend''))
       (configureServer
        \<lparr>grantedSkills = None, grantedScopes = Some {TeamRead},
        constraints = \<lparr>organizationSlug = Some ''c'', projectSlug = None, regionUrl = None\<rparr>\<rparr>
        [\<lparr>tool_name = ''find_teams'', inputSchema = [''organizationSlug'', ''query''],
        requiredSkills = Some [''inspect''], requiredScopes = Some [TeamRead]\<rparr>])"
proof -
  let ?ctx = "\<lparr>grantedSkills = None, grantedScopes = Some {TeamRead},
        constraints = \<lparr>organizationSlug = Some ''c'', projectSlug = None, regionUrl = None\<rparr>\<rparr>"
  let ?tool = "\<lparr>tool_name = ''find_teams'', inputSchema = [''organizationSlug'', ''query''],
        requiredSkills = Some [''inspect''], requiredScopes = Some [TeamRead]\<rparr>"
  let ?params = "[''organizationSlug'' \<mapsto> JString ''explicit'', ''query'' \<mapsto> JString ''backend'']"
  let ?reg = "\<lparr>registered_name = ''find_teams'', filteredInputSchema = [''query''],
       callback = paramsWithConstraints ?ctx ?tool\<rparr>"
  have keys: "getConstraintKeysToFilter
                \<lparr>organizationSlug = Some ''c'', projectSlug = None, regionUrl = None\<rparr>
                [''organizationSlug'', ''query'']
              = [''organizationSlug'']"
    by (simp add: getConstraintKeysToFilter_def getConstraintParametersToInject_def truthy_def)
  have e: "expandScopes {TeamRead} = {TeamRead}"
    by (simp add: expandScopes_def)
  have al: "allowed ?ctx ?tool"
    by (simp add: allowed_def isToolAllowed_def hasRequiredScopes_def e)
  have cs: "configureServer ?ctx [?tool] = [?reg]"
    by (simp add: configureServer_def al keys)
  have org: "truthy (organizationSlug (constraints ?ctx))
             \<and> ''organizationSlug'' \<in> set (inputSchema ?tool)"
    by (simp add: truthy_def)
  have q: "''query'' \<notin> set (getConstraintKeysToFilter (constraints ?ctx) (inputSchema ?tool))"
    by (simp add: keys)
  have "?reg \<in> set (configureServer ?ctx [?tool])"
    by (simp add: cs)
  with paramsWithConstraints_constraint_wins [of ?ctx "[?tool]"] org q
  have "callback ?reg ?params ''organizationSlug'' = Some (JString ''c'')
        \<and> callback ?reg ?params ''query'' = Some (JString ''backend'')"
    by (auto simp: text_of_def keys)
  then show ?thesis
    by (simp add: cs)
qed

text \<open>
  C1, as stated, fails: with the session constrained to organization \<open>c\<close>, the tool
  \<open>find_teams\<close>, which the granted scope \<open>team:read\<close> allows, is registered with
  \<open>organizationSlug\<close> removed from its schema, and a call with the explicit argument
  \<open>organizationSlug = explicit\<close> reaches the handler with \<open>organizationSlug = c\<close>.
\<close>

theorem explicit_value_overwritten_counterexample:
  "map registered_name
     (configureServer
        \<lparr>grantedSkills = None, grantedScopes = Some {TeamRead},
        constraints = \<lparr>organizationSlug = Some ''c'', projectSlug = None, regionUrl = None\<rparr>\<rparr>
        [\<lparr>tool_name = ''find_teams'', inputSchema = [''organizationSlug'', ''query''],
        requiredSkills = Some [''inspect''], requiredScopes = Some [TeamRead]\<rparr>])
     = [''find_teams'']
   \<and> map filteredInputSchema
     (configureServer
        \<lparr>grantedSkills = None, grantedScopes = Some {TeamRead},
        constraints = \<lparr>organizationSlug = Some ''c'', projectSlug = None, regionUrl = None\<rparr>\<rparr>
        [\<lparr>tool_name = ''find_teams'', inputSchema = [''organizationSlug'', ''query''],
        requiredSkills = Some [''inspect''], requiredScopes = Some [TeamRead]\<rparr>])
     = [[''query'']]
   \<and> map callback
     (configureServer
        \<lparr>grantedSkills = None, grantedScopes = Some {TeamRead},
        constraints = \<lparr>organizationSlug = Some ''c'', projectSlug = None, regionUrl = None\<rparr>\<rparr>
        [\<lparr>tool_name = ''find_teams'', inputSchema = [''organizationSlug'', ''query''],
        requiredSkills = Some [''inspect''], requiredScopes = Some [TeamRead]\<rparr>])
     = [paramsWithConstraints
        \<lparr>grantedSkills = None, grantedScopes = Some {TeamRead},
        constraints = \<lparr>organizationSlug = Some ''c'', projectSlug = None, regionUrl = None\<rparr>\<rparr>
        \<lparr>tool_name = ''find_teams'', inputSchema = [''organizationSlug'', ''query''],
        requiredSkills = Some [''inspect''], requiredScopes = Some [TeamRead]\<rparr>]
   \<and> paramsWithConstraints
        \<lparr>grantedSkills = None, grantedScopes = Some {TeamRead},
        constraints = \<lparr>organizationSlug = Some ''c'', projectSlug = None, regionUrl = None\<rparr>\<rparr>
        \<lparr>tool_name = ''find_teams'', inputSchema = [''organizationSlug'', ''query''],
        requiredSkills = Some [''inspect''], requiredScopes = Some [TeamRead]\<rparr>
        [''organizationSlug'' \<mapsto> JString ''explicit''] ''organizationSlug''
     = Some (JString ''c'')
   \<and> paramsWithConstraints
        \<lparr>grantedSkills = None, grantedScopes = Some {TeamRead},
        constraints = \<lparr>organizationSlug = Some ''c'', projectSlug = None, regionUrl = None\<rparr>\<rparr>
        \<lparr>tool_name = ''find_teams'', inputSchema = [''organizationSlug'', ''query''],
        requiredSkills = Some [''inspect''], requiredScopes = Some [TeamRead]\<rparr>
        [''organizationSlug'' \<mapsto> JString ''explicit''] ''organizationSlug''
     \<noteq> Some (JString ''explicit'')"
proof -
  have e: "expandScopes {TeamRead} = {TeamRead}"
    by (simp add: expandScopes_def)
  show ?thesis
    by (simp add: configureServer_def allowed_def isToolAllowed_def hasRequiredScopes_def e
        getConstraintKeysToFilter_def paramsWithConstraints_def applicableConstraints_def
        getConstraintParametersToInject_def truthy_def text_of_def)
qed

section \<open>Properties of configuration resolution\<close>


text \<open>
  C7. Every field of the merged record that has an environment counterpart is the
  command line's value when that is present (not \<open>undefined\<close>) and the environment's
  value otherwise; the fields without a counterpart are the command line's. The two
  legacy scope fields are coupled: when the command line supplies \<open>scopes\<close> (a
  non-empty value: the test is of truthiness), the merged \<open>addScopes\<close> is the command
  line's \<open>addScopes\<close>, whatever the environment gives; when it supplies
  \<open>addScopes\<close>, the merged \<open>scopes\<close> is the command line's \<open>scopes\<close>. Where the
  coupling does not apply, the two fields are resolved as the others are.
\<close>

theorem merge_cli_first_coupled_scopes:
  "merged_accessToken (merge cli env)
     = (case cli_accessToken cli of Some v \<Rightarrow> Some v | None \<Rightarrow> env_accessToken env)
   \<and> merged_host (merge cli env)
     = (case cli_host cli of Some v \<Rightarrow> Some v | None \<Rightarrow> env_host env)
   \<and> merged_url (merge cli env)
     = (case cli_url cli of Some v \<Rightarrow> Some v | None \<Rightarrow> env_url env)
   \<and> merged_mcpUrl (merge cli env)
     = (case cli_mcpUrl cli of Some v \<Rightarrow> Some v | None \<Rightarrow> env_mcpUrl env)
   \<and> merged_sentryDsn (merge cli env)
     = (case cli_sentryDsn cli of Some v \<Rightarrow> Some v | None \<Rightarrow> env_sentryDsn env)
   \<and> merged_openaiModel (merge cli env)
     = (case cli_openaiModel cli of Some v \<Rightarrow> Some v | None \<Rightarrow> env_openaiModel env)
   \<and> merged_skills (merge cli env)
     = (case cli_skills cli of Some v \<Rightarrow> Some v | None \<Rightarrow> env_skills env)
   \<and> merged_openaiBaseUrl (merge cli env) = cli_openaiBaseUrl cli
   \<and> merged_organizationSlug (merge cli env) = cli_organizationSlug cli
   \<and> merged_projectSlug (merge cli env) = cli_projectSlug cli
   \<and> merged_unknownArgs (merge cli env) = cli_unknownArgs cli
   \<and> merged_allScopes (merge cli env) = Some (cli_allScopes cli = Some True)
   \<and> merged_agent (merge cli env) = Some (cli_agent cli = Some True)
   \<and> merged_help (merge cli env) = Some (cli_help cli = Some True)
   \<and> merged_version (merge cli env) = Some (cli_version cli = Some True)
   \<and> (truthy (cli_scopes cli) \<longrightarrow> merged_addScopes (merge cli env) = cli_addScopes cli)
   \<and> (truthy (cli_addScopes cli) \<longrightarrow> merged_scopes (merge cli env) = cli_scopes cli)
   \<and> (\<not> truthy (cli_addScopes cli) \<longrightarrow>
        merged_scopes (merge cli env)
          = (case cli_scopes cli of Some v \<Rightarrow> Some v | None \<Rightarrow> env_scopes env))
   \<and> (\<not> truthy (cli_scopes cli) \<longrightarrow>
        merged_addScopes (merge cli env)
          = (case cli_addScopes cli of Some v \<Rightarrow> Some v | None \<Rightarrow> env_addScopes env))"
  by (simp add: merge_def nullish_def Let_def)

theorem merge_cli_first_coupled_scopes_witness:
  "merged_addScopes
     (merge
        \<lparr>cli_accessToken = None, cli_host = None, cli_url = None, cli_mcpUrl = None,
         cli_sentryDsn = None, cli_openaiBaseUrl = None, cli_openaiModel = None,
         cli_scopes = Some ''org:admin'', cli_addScopes = None, cli_allScopes = None,
         cli_skills = None, cli_agent = None, cli_organizationSlug = None,
         cli_projectSlug = None, cli_help = None, cli_version = None, cli_unknownArgs = []\<rparr>
        \<lparr>env_accessToken = Some ''envtok'', env_host = None, env_url = None, env_mcpUrl = None,
         env_sentryDsn = None, env_openaiModel = None, env_scopes = None,
         env_addScopes = Some ''project:write'', env_skills = None\<rparr>)
     = None
   \<and> merged_scopes
     (merge
        \<lparr>cli_accessToken = None, cli_host = None, cli_url = None, cli_mcpUrl = None,
         cli_sentryDsn = None, cli_openaiBaseUrl = None, cli_openaiModel = None,
         cli_scopes = None, cli_addScopes = Some ''event:write'', cli_allScopes = None,
         cli_skills = None, cli_agent = None, cli_organizationSlug = None,
         cli_projectSlug = None, cli_help = None, cli_version = None, cli_unknownArgs = []\<rparr>
        \<lparr>env_accessToken = Some ''envtok'', env_host = None, env_url = None, env_mcpUrl = None,
         env_sentryDsn = None, env_openaiModel = None, env_scopes = Some ''org:read'',
         env_addScopes = None, env_skills = None\<rparr>)
     = None
   \<and> merged_accessToken
     (merge
        \<lparr>cli_accessToken = None, cli_host = None, cli_url = None, cli_mcpUrl = None,
         cli_sentryDsn = None, cli_openaiBaseUrl = None, cli_openaiModel = None,
         cli_scopes = Some ''org:admin'', cli_addScopes = None, cli_allScopes = None,
         cli_skills = None, cli_agent = None, cli_organizationSlug = None,
         cli_projectSlug = None, cli_help = None, cli_version = None, cli_unknownArgs = []\<rparr>
        \<lparr>env_accessToken = Some ''envtok'', env_host = None, env_url = None, env_mcpUrl = None,
         env_sentryDsn = None, env_openaiModel = None, env_scopes = None,
         env_addScopes = Some ''project:write'', env_skills = None\<rparr>)
     = Some ''envtok''"
proof -
  let ?cliS = "\<lparr>cli_accessToken = None, cli_host = None, cli_url = None, cli_mcpUrl = None,
         cli_sentryDsn = None, cli_openaiBaseUrl = None, cli_openaiModel = None,
         cli_scopes = Some ''org:admin'', cli_addScopes = None, cli_allScopes = None,
         cli_skills = None, cli_agent = None, cli_organizationSlug = None,
         cli_projectSlug = None, cli_help = None, cli_version = None, cli_unknownArgs = []\<rparr>"
  let ?envA = "\<lparr>env_accessToken = Some ''envtok'', env_host = None, env_url = None, env_mcpUrl = None,
         env_sentryDsn = None, env_openaiModel = None, env_scopes = None,
         env_addScopes = Some ''project:write'', env_skills = None\<rparr>"
  let ?cliA = "\<lparr>cli_accessToken = None, cli_host = None, cli_url = None, cli_mcpUrl = None,
         cli_sentryDsn = None, cli_openaiBaseUrl = None, cli_openaiModel = None,
         cli_scopes = None, cli_addScopes = Some ''event:write'', cli_allScopes = None,
         cli_skills = None, cli_agent = None, cli_organizationSlug = None,
         cli_projectSlug = None, cli_help = None, cli_version = None, cli_unknownArgs = []\<rparr>"
  let ?envS = "\<lparr>env_accessToken = Some ''envtok'', env_host = None, env_url = None, env_mcpUrl = None,
         env_sentryDsn = None, env_openaiModel = None, env_scopes = Some ''org:read'',
         env_addScopes = None, env_skills = None\<rparr>"
  have s: "truthy (cli_scopes ?cliS)" by (simp add: truthy_def)
  have a: "truthy (cli_addScopes ?cliA)" by (simp add: truthy_def)
  show ?thesis
    using merge_cli_first_coupled_scopes [of ?cliS ?envA]
      merge_cli_first_coupled_scopes [of ?cliA ?envS] s a
    by simp
qed

lemma card_ALL_SKILLS: "card (set ALL_SKILLS) = 5"
  by (simp add: ALL_SKILLS_def SKILLS_def)

lemma length_SKILLS: "length SKILLS = 5"
  by (simp add: SKILLS_def)

lemma ALL_SKILLS_eq:
  "ALL_SKILLS = [''inspect'', ''seer'', ''docs'', ''triage'', ''project-management'']"
  by (simp add: ALL_SKILLS_def SKILLS_def)

lemma DEFAULT_SKILLS_eq: "DEFAULT_SKILLS = [''inspect'', ''seer'']"
  by (simp add: DEFAULT_SKILLS_def SKILLS_ARRAY_def SKILLS_def)

lemma DEFAULT_SKILLS_proper: "set DEFAULT_SKILLS \<subset> set ALL_SKILLS"
proof -
  have "set DEFAULT_SKILLS \<subseteq> set ALL_SKILLS"
    by (simp add: DEFAULT_SKILLS_eq ALL_SKILLS_eq)
  moreover have "''docs'' \<in> set ALL_SKILLS" "''docs'' \<notin> set DEFAULT_SKILLS"
    by (simp_all add: DEFAULT_SKILLS_eq ALL_SKILLS_eq)
  ultimately show ?thesis by blast
qed

text \<open>
  When the merged arguments supply no skills value (the field is undefined or the empty
  string), the skills block succeeds with the set of all keys of \<open>SKILLS\<close>, and a
  configuration that \<open>finalize\<close> returns has that set as \<open>finalSkills\<close>: five
  skills, of which the default-enabled ones are a proper part.
\<close>

lemma finalize_unset_skills_all:
  assumes "\<not> truthy (merged_skills input)"
  shows "finalize_skills input = Inr (Some (set ALL_SKILLS))"
    and "finalize utils input = Inr cfg \<Longrightarrow> finalSkills cfg = Some (set ALL_SKILLS)"
proof -
  show s: "finalize_skills input = Inr (Some (set ALL_SKILLS))"
    using assms by (simp add: finalize_skills_def ALL_SKILLS_def)
  assume "finalize utils input = Inr cfg"
  with s show "finalSkills cfg = Some (set ALL_SKILLS)"
    by (auto simp: finalize_def split: if_splits sum.splits)
qed

text \<open>
  When a skills value is supplied, what \<open>finalize\<close> returns as \<open>finalSkills\<close> is the
  set of the trimmed tokens of the value that \<open>isValidSkill\<close> accepts, and the
  tokens it rejects make \<open>finalize\<close> fail.
\<close>

lemma parseSkills_loop_valid:
  "fst (parseSkills_loop tokens (valid, invalid))
     = valid \<union> {t \<in> set (map trim tokens). isValidSkill t}"
  by (induction tokens arbitrary: valid invalid) (auto simp: Let_def)

lemma finalize_supplied_skills:
  assumes "truthy (merged_skills input)" and "finalize utils input = Inr cfg"
  shows "finalSkills cfg
           = Some {t \<in> set (map trim (splitOn CHR '','' (text_of (merged_skills input)))).
                    isValidSkill t}"
proof -
  from assms have "finalize_skills input = Inr (finalSkills cfg)"
    by (auto simp: finalize_def split: if_splits sum.splits)
  with assms(1) have "finalSkills cfg
      = Some (fst (parseSkills (UString (text_of (merged_skills input)))))"
    by (auto simp: finalize_skills_def split: if_splits prod.splits)
  moreover from assms(1) have "text_of (merged_skills input) \<noteq> []"
    by (auto simp: truthy_def text_of_def split: option.splits)
  ultimately show ?thesis
    by (simp add: parseSkills_def parseSkills_loop_valid)
qed

text \<open>
  C6. The first half of the claim holds (\<open>finalize_unset_skills_all\<close>). The second
  half fails on the code: \<open>isValidSkill\<close> is \<open>skill in SKILLS\<close>, which also
  answers true for the property names that \<open>SKILLS\<close> inherits from
  \<open>Object.prototype\<close>. The token \<open>bogus\<close> is rejected and makes \<open>finalize\<close> fail,
  but \<open>toString\<close>, which is none of the five skills, is accepted: with
  \<open>skills = toString\<close> the call returns a configuration whose \<open>finalSkills\<close> is
  \<open>{toString}\<close>, and with \<open>skills = inspect,toString\<close> one whose \<open>finalSkills\<close>
  holds \<open>toString\<close> beside \<open>inspect\<close>.
\<close>

theorem finalize_accepts_inherited_property_name:
  "finalize
       \<lparr>validateAndParseSentryUrlThrows = (\<lambda>url. Inl (Error ''unused'')),
        validateSentryHostThrows = (\<lambda>host. Inl (Error ''unused'')),
        validateOpenAiBaseUrlThrows = (\<lambda>url. Inl (Error ''unused''))\<rparr>
       \<lparr>merged_accessToken = Some ''t'', merged_host = None, merged_url = None,
        merged_mcpUrl = None, merged_sentryDsn = None,
        merged_openaiBaseUrl = None, merged_openaiModel = None,
        merged_scopes = None, merged_addScopes = None, merged_allScopes = None,
        merged_skills = Some ''toString'', merged_agent = None,
        merged_organizationSlug = None, merged_projectSlug = None,
        merged_help = None, merged_version = None, merged_unknownArgs = []\<rparr>
     = Inr \<lparr>accessToken = ''t'', sentryHost = ''sentry.io'', mcpUrl = None, sentryDsn = None,
            openaiBaseUrl = None, openaiModel = None, finalScopes = None,
            finalSkills = Some {''toString''},
            cfg_organizationSlug = None, cfg_projectSlug = None\<rparr>
   \<and> finalize
       \<lparr>validateAndParseSentryUrlThrows = (\<lambda>url. Inl (Error ''unused'')),
        validateSentryHostThrows = (\<lambda>host. Inl (Error ''unused'')),
        validateOpenAiBaseUrlThrows = (\<lambda>url. Inl (Error ''unused''))\<rparr>
       \<lparr>merged_accessToken = Some ''t'', merged_host = None, merged_url = None,
        merged_mcpUrl = None, merged_sentryDsn = None,
        merged_openaiBaseUrl = None, merged_openaiModel = None,
        merged_scopes = None, merged_addScopes = None, merged_allScopes = None,
        merged_skills = Some ''inspect,toString'', merged_agent = None,
        merged_organizationSlug = None, merged_projectSlug = None,
        merged_help = None, merged_version = None, merged_unknownArgs = []\<rparr>
     = Inr \<lparr>accessToken = ''t'', sentryHost = ''sentry.io'', mcpUrl = None, sentryDsn = None,
            openaiBaseUrl = None, openaiModel = None, finalScopes = None,
            finalSkills = Some {''inspect'', ''toString''},
            cfg_organizationSlug = None, cfg_projectSlug = None\<rparr>
   \<and> ''toString'' \<notin> set ALL_SKILLS
   \<and> finalize
       \<lparr>validateAndParseSentryUrlThrows = (\<lambda>url. Inl (Error ''unused'')),
        validateSentryHostThrows = (\<lambda>host. Inl (Error ''unused'')),
        validateOpenAiBaseUrlThrows = (\<lambda>url. Inl (Error ''unused''))\<rparr>
       \<lparr>merged_accessToken = Some ''t'', merged_host = None, merged_url = None,
        merged_mcpUrl = None, merged_sentryDsn = None,
        merged_openaiBaseUrl = None, merged_openaiModel = None,
        merged_scopes = None, merged_addScopes = None, merged_allScopes = None,
        merged_skills = Some ''inspect,bogus'', merged_agent = None,
        merged_organizationSlug = None, merged_projectSlug = None,
        merged_help = None, merged_version = None, merged_unknownArgs = []\<rparr>
     = Inl (Error (formatInvalidSkills [''bogus''] None))"
proof -
  have p1: "parseSkills (UString ''toString'') = ({''toString''}, [])"
    by code_simp
  have p2: "parseSkills (UString ''inspect,toString'') = ({''inspect'', ''toString''}, [])"
    by code_simp
  have p3: "parseSkills (UString ''inspect,bogus'') = ({''inspect''}, [''bogus''])"
    by code_simp
  have n: "''toString'' \<notin> set ALL_SKILLS"
    by (simp add: ALL_SKILLS_eq)
  show ?thesis
    by (simp add: finalize_def finalize_host_def finalize_scopes_def finalize_skills_def
        finalize_openaiBaseUrl_def truthy_def text_of_def p1 p2 p3 n)
qed










lemma parseScopes_no_break_space:
  "parseScopes (UString (CHR 0xA0 # ''org:read '' @ [CHR 0xA0, CHR '','', CHR 0x09] @ ''bogus''))
     = ({OrgRead}, [''bogus''])"
  by code_simp




section \<open>Properties of the OAuth bootstrap\<close>

lemma getOrRegisterClientId_frame:
  "server (snd (getOrRegisterClientId config env w)) = server w"
  "portInUse (snd (getOrRegisterClientId config env w)) = portInUse w"
  "accessTokens (snd (getOrRegisterClientId config env w)) = accessTokens w"
  "requests (snd (getOrRegisterClientId config env w)) = requests w
   \<or> requests (snd (getOrRegisterClientId config env w)) = requests w @ [RegisterClient]"
  by (auto simp: getOrRegisterClientId_def Let_def split: sum.splits error.splits option.splits)

lemma startCallbackServer_free:
  "\<not> portInUse w \<Longrightarrow> startCallbackServer w = (Inr (), w\<lparr>server := Some True, portInUse := True\<rparr>)"
  by (simp add: startCallbackServer_def)

lemma authenticate_reaches_try:
  assumes "getOrRegisterClientId config env w = (Inr clientId, w1)"
    and "\<not> portInUse w" and "authUrlValid env"
  shows "authenticate config env w
           = (case authenticate_try config env clientId (w1\<lparr>server := Some True, portInUse := True\<rparr>) of
                (Pending, w3) \<Rightarrow> (Pending, w3)
              | (outcome, w3) \<Rightarrow> (outcome, closeServer w3))"
proof -
  have "portInUse w1 = portInUse w"
    using getOrRegisterClientId_frame(2) [of config env w] assms(1) by simp
  with assms show ?thesis
    by (simp add: authenticate_def startCallbackServer_free)
qed

lemma authenticate_try_frame:
  "server (snd (authenticate_try config env clientId w)) = server w"
  "portInUse (snd (authenticate_try config env clientId w)) = portInUse w"
  by (auto simp: authenticate_try_def Let_def split: option.splits Settlement.splits sum.splits)

lemma closeServer_listening:
  "server w = Some True \<Longrightarrow> server (closeServer w) = None \<and> \<not> portInUse (closeServer w)"
  by (simp add: closeServer_def)

lemma closeServer_frame:
  "requests (closeServer w) = requests w"
  "accessTokens (closeServer w) = accessTokens w"
  by (simp_all add: closeServer_def split: option.splits)

lemma authenticate_closed:
  assumes "getOrRegisterClientId config env w = (Inr clientId, w1)"
    and "\<not> portInUse w" and "authUrlValid env"
    and "fst (authenticate config env w) \<noteq> Pending"
  shows "server (snd (authenticate config env w)) = None"
    and "\<not> portInUse (snd (authenticate config env w))"
proof -
  let ?w2 = "w1\<lparr>server := Some True, portInUse := True\<rparr>"
  obtain out w3 where t: "authenticate_try config env clientId ?w2 = (out, w3)"
    by (cases "authenticate_try config env clientId ?w2")
  have s3: "server w3 = Some True"
    using authenticate_try_frame(1) [of config env clientId ?w2] t by simp
  have a: "authenticate config env w
             = (case out of Pending \<Rightarrow> (Pending, w3) | _ \<Rightarrow> (out, closeServer w3))"
    using authenticate_reaches_try [OF assms(1-3)] t by (cases out) simp_all
  with assms(4) have "out \<noteq> Pending" by (cases out) simp_all
  with a have "snd (authenticate config env w) = closeServer w3"
    by (cases out) simp_all
  with closeServer_listening [OF s3]
  show "server (snd (authenticate config env w)) = None"
    and "\<not> portInUse (snd (authenticate config env w))"
    by simp_all
qed

lemma authenticate_try_mismatch:
  "waitForCallback (callbackRequests env) = Some (Resolve code receivedState) \<Longrightarrow>
   receivedState \<noteq> generatedState env \<Longrightarrow>
   authenticate_try config env clientId w
     = (Throws (Error ''State mismatch - possible CSRF attack''), w)"
  by (simp add: authenticate_try_def)

lemma authenticate_try_rejected:
  "waitForCallback (callbackRequests env) = Some (Reject e) \<Longrightarrow>
   authenticate_try config env clientId w = (Throws e, w)"
  by (simp add: authenticate_try_def)

lemma authenticate_try_exchange_failed:
  "waitForCallback (callbackRequests env) = Some (Resolve code (generatedState env)) \<Longrightarrow>
   tokenResponse env = Inl e \<Longrightarrow>
   authenticate_try config env clientId w
     = (Throws e, w\<lparr>requests := requests w @ [TokenExchange code (verifier env) clientId]\<rparr>)"
  by (simp add: authenticate_try_def)

lemma authenticate_try_success:
  "waitForCallback (callbackRequests env) = Some (Resolve code (generatedState env)) \<Longrightarrow>
   tokenResponse env = Inr response \<Longrightarrow> setAccessTokenError env = None \<Longrightarrow>
   fst (authenticate_try config env clientId w) = Returns (access_token response)"
  by (simp add: authenticate_try_def)

text \<open>
  C4. Let the client id be available, the callback port be free when \<open>authenticate\<close>
  starts (so that the listener binds it), and the authorization URL be well-formed, so
  that the \<open>try\<close> block is entered. Then a successful token exchange returns the
  token, a callback state that differs from the generated one throws the CSRF error,
  and a failed token exchange throws its error; and however \<open>authenticate\<close> returns
  or throws from there, \<open>this.server\<close> is \<open>null\<close> again and the port is released
  when it does, so that the listener of a following \<open>authenticate\<close> call binds the
  port.
\<close>

theorem authenticate_closes_listener:
  assumes client: "getOrRegisterClientId config env w = (Inr clientId, w1)"
    and free: "\<not> portInUse w"
    and url: "authUrlValid env"
  shows
    "(waitForCallback (callbackRequests env) = Some (Resolve code (generatedState env))
        \<and> tokenResponse env = Inr response \<and> setAccessTokenError env = None \<longrightarrow>
          fst (authenticate config env w) = Returns (access_token response))
     \<and> (waitForCallback (callbackRequests env) = Some (Resolve code receivedState)
        \<and> receivedState \<noteq> generatedState env \<longrightarrow>
          fst (authenticate config env w)
            = Throws (Error ''State mismatch - possible CSRF attack''))
     \<and> (waitForCallback (callbackRequests env) = Some (Resolve code (generatedState env))
        \<and> tokenResponse env = Inl e \<longrightarrow>
          fst (authenticate config env w) = Throws e)
     \<and> (fst (authenticate config env w) \<noteq> Pending \<longrightarrow>
          server (snd (authenticate config env w)) = None
          \<and> \<not> portInUse (snd (authenticate config env w))
          \<and> fst (startCallbackServer
                 (snd (getOrRegisterClientId config env2 (snd (authenticate config env w)))))
              = Inr ())"
proof (intro conjI impI)
  let ?w2 = "w1\<lparr>server := Some True, portInUse := True\<rparr>"
  note r = authenticate_reaches_try [OF client free url]
  {
    assume "waitForCallback (callbackRequests env) = Some (Resolve code (generatedState env))
        \<and> tokenResponse env = Inr response \<and> setAccessTokenError env = None"
    then have "fst (authenticate_try config env clientId ?w2) = Returns (access_token response)"
      by (simp add: authenticate_try_success)
    then show "fst (authenticate config env w) = Returns (access_token response)"
      by (cases "authenticate_try config env clientId ?w2") (simp add: r)
  }
  {
    assume "waitForCallback (callbackRequests env) = Some (Resolve code receivedState)
        \<and> receivedState \<noteq> generatedState env"
    then have "authenticate_try config env clientId ?w2
        = (Throws (Error ''State mismatch - possible CSRF attack''), ?w2)"
      by (simp add: authenticate_try_mismatch)
    then show "fst (authenticate config env w)
        = Throws (Error ''State mismatch - possible CSRF attack'')"
      by (simp add: r)
  }
  {
    assume "waitForCallback (callbackRequests env) = Some (Resolve code (generatedState env))
        \<and> tokenResponse env = Inl e"
    then have "fst (authenticate_try config env clientId ?w2) = Throws e"
      by (simp add: authenticate_try_exchange_failed)
    then show "fst (authenticate config env w) = Throws e"
      by (cases "authenticate_try config env clientId ?w2") (simp add: r)
  }
  assume np: "fst (authenticate config env w) \<noteq> Pending"
  show "server (snd (authenticate config env w)) = None"
    by (rule authenticate_closed(1) [OF client free url np])
  show c: "\<not> portInUse (snd (authenticate config env w))"
    by (rule authenticate_closed(2) [OF client free url np])
  have "\<not> portInUse (snd (getOrRegisterClientId config env2 (snd (authenticate config env w))))"
    using c by (simp add: getOrRegisterClientId_frame(2))
  then show "fst (startCallbackServer
                 (snd (getOrRegisterClientId config env2 (snd (authenticate config env w)))))
              = Inr ()"
    by (simp add: startCallbackServer_def)
qed

theorem authenticate_closes_listener_witness:
  "fst (authenticate
       \<lparr>mcpHost = ''https://mcp.sentry.dev'', oauth_scopes = [''org:read'']\<rparr>
       \<lparr>registerResponse = Inl (Error ''not asked''), setOAuthClientIdError = None,
        setAccessTokenError = None, verifier = ''v'', challenge = ''c'',
        generatedState = ''s1'', authUrlValid = True,
        callbackRequests =
          [\<lparr>has_url = True, pathname = ''/favicon.ico'', query_code = None,
           query_state = None, query_error = None,
           query_error_description = None\<rparr>,
           \<lparr>has_url = True, pathname = ''/callback'', query_code = Some ''abc'',
           query_state = Some ''s1'', query_error = None,
           query_error_description = None\<rparr>],
        tokenResponse = Inr \<lparr>access_token = ''tok'', token_type = ''bearer'', expires_in = Some 3600,
                 refresh_token = None, token_scope = None\<rparr>\<rparr>
       \<lparr>server = None, portInUse = False,
        oauthClientIds = [''https://mcp.sentry.dev'' \<mapsto> ''client-1''],
        accessTokens = Map.empty, requests = []\<rparr>)
     = Returns ''tok''
   \<and> portInUse (snd (authenticate
       \<lparr>mcpHost = ''https://mcp.sentry.dev'', oauth_scopes = [''org:read'']\<rparr>
       \<lparr>registerResponse = Inl (Error ''not asked''), setOAuthClientIdError = None,
        setAccessTokenError = None, verifier = ''v'', challenge = ''c'',
        generatedState = ''s1'', authUrlValid = True,
        callbackRequests =
          [\<lparr>has_url = True, pathname = ''/favicon.ico'', query_code = None,
           query_state = None, query_error = None,
           query_error_description = None\<rparr>,
           \<lparr>has_url = True, pathname = ''/callback'', query_code = Some ''abc'',
           query_state = Some ''s1'', query_error = None,
           query_error_description = None\<rparr>],
        tokenResponse = Inr \<lparr>access_token = ''tok'', token_type = ''bearer'', expires_in = Some 3600,
                 refresh_token = None, token_scope = None\<rparr>\<rparr>
       \<lparr>server = None, portInUse = False,
        oauthClientIds = [''https://mcp.sentry.dev'' \<mapsto> ''client-1''],
        accessTokens = Map.empty, requests = []\<rparr>))
     = False
   \<and> fst (authenticate
       \<lparr>mcpHost = ''https://mcp.sentry.dev'', oauth_scopes = [''org:read'']\<rparr>
       \<lparr>registerResponse = Inl (Error ''not asked''), setOAuthClientIdError = None,
        setAccessTokenError = None, verifier = ''v'', challenge = ''c'',
        generatedState = ''s1'', authUrlValid = True,
        callbackRequests =
          [\<lparr>has_url = True, pathname = ''/favicon.ico'', query_code = None,
           query_state = None, query_error = None,
           query_error_description = None\<rparr>,
           \<lparr>has_url = True, pathname = ''/callback'', query_code = Some ''abc'',
           query_state = Some ''forged'', query_error = None,
           query_error_description = None\<rparr>],
        tokenResponse = Inr \<lparr>access_token = ''tok'', token_type = ''bearer'', expires_in = Some 3600,
                 refresh_token = None, token_scope = None\<rparr>\<rparr>
       \<lparr>server = None, portInUse = False,
        oauthClientIds = [''https://mcp.sentry.dev'' \<mapsto> ''client-1''],
        accessTokens = Map.empty, requests = []\<rparr>)
     = Throws (Error ''State mismatch - possible CSRF attack'')
   \<and> server (snd (authenticate
       \<lparr>mcpHost = ''https://mcp.sentry.dev'', oauth_scopes = [''org:read'']\<rparr>
       \<lparr>registerResponse = Inl (Error ''not asked''), setOAuthClientIdError = None,
        setAccessTokenError = None, verifier = ''v'', challenge = ''c'',
        generatedState = ''s1'', authUrlValid = True,
        callbackRequests =
          [\<lparr>has_url = True, pathname = ''/favicon.ico'', query_code = None,
           query_state = None, query_error = None,
           query_error_description = None\<rparr>,
           \<lparr>has_url = True, pathname = ''/callback'', query_code = Some ''abc'',
           query_state = Some ''forged'', query_error = None,
           query_error_description = None\<rparr>],
        tokenResponse = Inr \<lparr>access_token = ''tok'', token_type = ''bearer'', expires_in = Some 3600,
                 refresh_token = None, token_scope = None\<rparr>\<rparr>
       \<lparr>server = None, portInUse = False,
        oauthClientIds = [''https://mcp.sentry.dev'' \<mapsto> ''client-1''],
        accessTokens = Map.empty, requests = []\<rparr>))
     = None
   \<and> fst (authenticate
       \<lparr>mcpHost = ''https://mcp.sentry.dev'', oauth_scopes = [''org:read'']\<rparr>
       \<lparr>registerResponse = Inl (Error ''not asked''), setOAuthClientIdError = None,
        setAccessTokenError = None, verifier = ''v'', challenge = ''c'',
        generatedState = ''s1'', authUrlValid = True,
        callbackRequests =
          [\<lparr>has_url = True, pathname = ''/favicon.ico'', query_code = None,
           query_state = None, query_error = None,
           query_error_description = None\<rparr>,
           \<lparr>has_url = True, pathname = ''/callback'', query_code = Some ''abc'',
           query_state = Some ''s1'', query_error = None,
           query_error_description = None\<rparr>],
        tokenResponse = Inl (Error ''Token exchange failed: 400 - invalid_grant'')\<rparr>
       \<lparr>server = None, portInUse = False,
        oauthClientIds = [''https://mcp.sentry.dev'' \<mapsto> ''client-1''],
        accessTokens = Map.empty, requests = []\<rparr>)
     = Throws (Error ''Token exchange failed: 400 - invalid_grant'')
   \<and> portInUse (snd (authenticate
       \<lparr>mcpHost = ''https://mcp.sentry.dev'', oauth_scopes = [''org:read'']\<rparr>
       \<lparr>registerResponse = Inl (Error ''not asked''), setOAuthClientIdError = None,
        setAccessTokenError = None, verifier = ''v'', challenge = ''c'',
        generatedState = ''s1'', authUrlValid = True,
        callbackRequests =
          [\<lparr>has_url = True, pathname = ''/favicon.ico'', query_code = None,
           query_state = None, query_error = None,
           query_error_description = None\<rparr>,
           \<lparr>has_url = True, pathname = ''/callback'', query_code = Some ''abc'',
           query_state = Some ''s1'', query_error = None,
           query_error_description = None\<rparr>],
        tokenResponse = Inl (Error ''Token exchange failed: 400 - invalid_grant'')\<rparr>
       \<lparr>server = None, portInUse = False,
        oauthClientIds = [''https://mcp.sentry.dev'' \<mapsto> ''client-1''],
        accessTokens = Map.empty, requests = []\<rparr>))
     = False
   \<and> fst (startCallbackServer (snd (getOrRegisterClientId
       \<lparr>mcpHost = ''https://mcp.sentry.dev'', oauth_scopes = [''org:read'']\<rparr>
       \<lparr>registerResponse = Inl (Error ''not asked''), setOAuthClientIdError = None,
        setAccessTokenError = None, verifier = ''v'', challenge = ''c'',
        generatedState = ''s1'', authUrlValid = True,
        callbackRequests =
          [\<lparr>has_url = True, pathname = ''/favicon.ico'', query_code = None,
           query_state = None, query_error = None,
           query_error_description = None\<rparr>,
           \<lparr>has_url = True, pathname = ''/callback'', query_code = Some ''abc'',
           query_state = Some ''s1'', query_error = None,
           query_error_description = None\<rparr>],
        tokenResponse = Inr \<lparr>access_token = ''tok'', token_type = ''bearer'', expires_in = Some 3600,
                 refresh_token = None, token_scope = None\<rparr>\<rparr>
       (snd (authenticate
       \<lparr>mcpHost = ''https://mcp.sentry.dev'', oauth_scopes = [''org:read'']\<rparr>
       \<lparr>registerResponse = Inl (Error ''not asked''), setOAuthClientIdError = None,
        setAccessTokenError = None, verifier = ''v'', challenge = ''c'',
        generatedState = ''s1'', authUrlValid = True,
        callbackRequests =
          [\<lparr>has_url = True, pathname = ''/favicon.ico'', query_code = None,
           query_state = None, query_error = None,
           query_error_description = None\<rparr>,
           \<lparr>has_url = True, pathname = ''/callback'', query_code = Some ''abc'',
           query_state = Some ''s1'', query_error = None,
           query_error_description = None\<rparr>],
        tokenResponse = Inl (Error ''Token exchange failed: 400 - invalid_grant'')\<rparr>
       \<lparr>server = None, portInUse = False,
        oauthClientIds = [''https://mcp.sentry.dev'' \<mapsto> ''client-1''],
        accessTokens = Map.empty, requests = []\<rparr>)))))
     = Inr ()"
proof -
  let ?config = "\<lparr>mcpHost = ''https://mcp.sentry.dev'', oauth_scopes = [''org:read'']\<rparr>"
  let ?w = "\<lparr>server = None, portInUse = False,
        oauthClientIds = [''https://mcp.sentry.dev'' \<mapsto> ''client-1''],
        accessTokens = Map.empty, requests = []\<rparr>"
  let ?ok = "\<lparr>registerResponse = Inl (Error ''not asked''), setOAuthClientIdError = None,
        setAccessTokenError = None, verifier = ''v'', challenge = ''c'',
        generatedState = ''s1'', authUrlValid = True,
        callbackRequests =
          [\<lparr>has_url = True, pathname = ''/favicon.ico'', query_code = None,
           query_state = None, query_error = None,
           query_error_description = None\<rparr>,
           \<lparr>has_url = True, pathname = ''/callback'', query_code = Some ''abc'',
           query_state = Some ''s1'', query_error = None,
           query_error_description = None\<rparr>],
        tokenResponse = Inr \<lparr>access_token = ''tok'', token_type = ''bearer'', expires_in = Some 3600,
                 refresh_token = None, token_scope = None\<rparr>\<rparr>"
  let ?forged = "\<lparr>registerResponse = Inl (Error ''not asked''), setOAuthClientIdError = None,
        setAccessTokenError = None, verifier = ''v'', challenge = ''c'',
        generatedState = ''s1'', authUrlValid = True,
        callbackRequests =
          [\<lparr>has_url = True, pathname = ''/favicon.ico'', query_code = None,
           query_state = None, query_error = None,
           query_error_description = None\<rparr>,
           \<lparr>has_url = True, pathname = ''/callback'', query_code = Some ''abc'',
           query_state = Some ''forged'', query_error = None,
           query_error_description = None\<rparr>],
        tokenResponse = Inr \<lparr>access_token = ''tok'', token_type = ''bearer'', expires_in = Some 3600,
                 refresh_token = None, token_scope = None\<rparr>\<rparr>"
  let ?failing = "\<lparr>registerResponse = Inl (Error ''not asked''), setOAuthClientIdError = None,
        setAccessTokenError = None, verifier = ''v'', challenge = ''c'',
        generatedState = ''s1'', authUrlValid = True,
        callbackRequests =
          [\<lparr>has_url = True, pathname = ''/favicon.ico'', query_code = None,
           query_state = None, query_error = None,
           query_error_description = None\<rparr>,
           \<lparr>has_url = True, pathname = ''/callback'', query_code = Some ''abc'',
           query_state = Some ''s1'', query_error = None,
           query_error_description = None\<rparr>],
        tokenResponse = Inl (Error ''Token exchange failed: 400 - invalid_grant'')\<rparr>"
  let ?response = "\<lparr>access_token = ''tok'', token_type = ''bearer'', expires_in = Some 3600,
                 refresh_token = None, token_scope = None\<rparr>"
  have free: "\<not> portInUse ?w" by simp
  have c1: "getOrRegisterClientId ?config ?ok ?w = (Inr ''client-1'', ?w)"
    and c2: "getOrRegisterClientId ?config ?forged ?w = (Inr ''client-1'', ?w)"
    and c3: "getOrRegisterClientId ?config ?failing ?w = (Inr ''client-1'', ?w)"
    by (simp_all add: getOrRegisterClientId_def truthy_def text_of_def)
  have u1: "authUrlValid ?ok" and u2: "authUrlValid ?forged" and u3: "authUrlValid ?failing"
    by simp_all
  have k1: "waitForCallback (callbackRequests ?ok) = Some (Resolve ''abc'' (generatedState ?ok))"
    and k2: "waitForCallback (callbackRequests ?forged) = Some (Resolve ''abc'' ''forged'')"
    and k3: "waitForCallback (callbackRequests ?failing)
               = Some (Resolve ''abc'' (generatedState ?failing))"
    by (simp_all add: handleRequest_def truthy_def text_of_def)
  have p1: "fst (authenticate ?config ?ok ?w) = Returns ''tok''
            \<and> portInUse (snd (authenticate ?config ?ok ?w)) = False"
    using authenticate_closes_listener [OF c1 free u1, where code = "''abc''"
        and response = ?response] k1
    by simp
  have p2: "fst (authenticate ?config ?forged ?w)
              = Throws (Error ''State mismatch - possible CSRF attack'')
            \<and> server (snd (authenticate ?config ?forged ?w)) = None"
    using authenticate_closes_listener [OF c2 free u2, where code = "''abc''"
        and receivedState = "''forged''"] k2
    by simp
  have p3: "fst (authenticate ?config ?failing ?w)
              = Throws (Error ''Token exchange failed: 400 - invalid_grant'')
            \<and> portInUse (snd (authenticate ?config ?failing ?w)) = False
            \<and> fst (startCallbackServer (snd (getOrRegisterClientId ?config ?ok
                   (snd (authenticate ?config ?failing ?w))))) = Inr ()"
    using authenticate_closes_listener [OF c3 free u3, where code = "''abc''"
        and e = "Error ''Token exchange failed: 400 - invalid_grant''" and ?env2.0 = ?ok] k3
    by simp
  from p1 p2 p3 show ?thesis by simp
qed

lemma handleRequest_Resolve:
  "snd (handleRequest req) = Some (Resolve code st) \<Longrightarrow>
   pathname req = ''/callback'' \<and> query_code req = Some code \<and> query_state req = Some st"
  by (cases "query_code req"; cases "query_state req")
    (auto simp: handleRequest_def Let_def truthy_def text_of_def split: if_splits)

lemma waitForCallback_Resolve:
  "waitForCallback reqs = Some (Resolve code st) \<Longrightarrow>
   \<exists>req \<in> set reqs. pathname req = ''/callback''
      \<and> query_code req = Some code \<and> query_state req = Some st"
proof (induction reqs)
  case Nil
  then show ?case by simp
next
  case (Cons req rest)
  show ?case
  proof (cases "snd (handleRequest req)")
    case None
    with Cons show ?thesis by simp
  next
    case (Some settled)
    with Cons.prems have "snd (handleRequest req) = Some (Resolve code st)" by simp
    from handleRequest_Resolve [OF this] show ?thesis by simp
  qed
qed

lemma authenticate_try_not_resolved:
  assumes "waitForCallback (callbackRequests env) = Some settled"
    and "\<forall>code. settled \<noteq> Resolve code (generatedState env)"
  shows "\<exists>e. authenticate_try config env clientId w = (Throws e, w)"
proof (cases settled)
  case (Resolve code st)
  with assms(2) have "st \<noteq> generatedState env" by auto
  with assms(1) Resolve show ?thesis by (simp add: authenticate_try_mismatch)
next
  case (Reject e)
  with assms(1) show ?thesis by (simp add: authenticate_try_rejected)
qed

text \<open>
  C5. When the listener hands over a callback whose state differs from the state
  generated for this flow, \<open>authenticate\<close> throws the error
  \<open>State mismatch - possible CSRF attack\<close>; the state handed over is the \<open>state\<close>
  query parameter of a request to the callback path. More generally, whenever the
  callback settles otherwise than with the generated state (the listener rejects a
  callback that carries an \<open>error\<close> parameter, or lacks the code or the state, with
  an error of its own), \<open>authenticate\<close> throws. In both cases the requests sent are
  those sent before the callback was awaited, so no token request is among them that
  was not there before the call, and the token cache is what it was.
\<close>

theorem authenticate_state_mismatch_no_exchange:
  assumes client: "getOrRegisterClientId config env w = (Inr clientId, w1)"
    and free: "\<not> portInUse w"
    and url: "authUrlValid env"
  shows
    "(waitForCallback (callbackRequests env) = Some (Resolve code receivedState)
        \<and> receivedState \<noteq> generatedState env \<longrightarrow>
          fst (authenticate config env w)
            = Throws (Error ''State mismatch - possible CSRF attack'')
          \<and> (\<exists>req \<in> set (callbackRequests env). pathname req = ''/callback''
                \<and> query_state req = Some receivedState))
     \<and> (waitForCallback (callbackRequests env) = Some settled
        \<and> (\<forall>code. settled \<noteq> Resolve code (generatedState env)) \<longrightarrow>
          (\<exists>e. fst (authenticate config env w) = Throws e)
          \<and> requests (snd (authenticate config env w)) = requests w1
          \<and> (\<forall>c v i. TokenExchange c v i \<in> set (requests (snd (authenticate config env w)))
                \<longrightarrow> TokenExchange c v i \<in> set (requests w))
          \<and> accessTokens (snd (authenticate config env w)) = accessTokens w)"
proof (intro conjI impI)
  let ?w2 = "w1\<lparr>server := Some True, portInUse := True\<rparr>"
  note r = authenticate_reaches_try [OF client free url]
  {
    assume h: "waitForCallback (callbackRequests env) = Some (Resolve code receivedState)
        \<and> receivedState \<noteq> generatedState env"
    then have "authenticate_try config env clientId ?w2
        = (Throws (Error ''State mismatch - possible CSRF attack''), ?w2)"
      by (simp add: authenticate_try_mismatch)
    then show "fst (authenticate config env w)
        = Throws (Error ''State mismatch - possible CSRF attack'')"
      by (simp add: r)
    from h waitForCallback_Resolve [of "callbackRequests env" code receivedState]
    show "\<exists>req \<in> set (callbackRequests env). pathname req = ''/callback''
                \<and> query_state req = Some receivedState"
      by blast
  }
  assume h: "waitForCallback (callbackRequests env) = Some settled
        \<and> (\<forall>code. settled \<noteq> Resolve code (generatedState env))"
  then obtain e where t: "authenticate_try config env clientId ?w2 = (Throws e, ?w2)"
    using authenticate_try_not_resolved [of env settled config clientId ?w2] by blast
  have a: "authenticate config env w = (Throws e, closeServer ?w2)"
    using r t by simp
  have w1: "w1 = snd (getOrRegisterClientId config env w)"
    using client by simp
  have rq: "requests w1 = requests w \<or> requests w1 = requests w @ [RegisterClient]"
    unfolding w1 by (rule getOrRegisterClientId_frame(4))
  have tk: "accessTokens w1 = accessTokens w"
    unfolding w1 by (rule getOrRegisterClientId_frame(3))
  show "\<exists>e. fst (authenticate config env w) = Throws e"
    by (simp add: a)
  show q: "requests (snd (authenticate config env w)) = requests w1"
    by (simp add: a closeServer_frame)
  from q rq
  show "\<forall>c v i. TokenExchange c v i \<in> set (requests (snd (authenticate config env w)))
               \<longrightarrow> TokenExchange c v i \<in> set (requests w)"
    by auto
  show "accessTokens (snd (authenticate config env w)) = accessTokens w"
    by (simp add: a closeServer_frame tk)
qed

theorem authenticate_state_mismatch_no_exchange_witness:
  "fst (authenticate
       \<lparr>mcpHost = ''https://mcp.sentry.dev'', oauth_scopes = [''org:read'']\<rparr>
       \<lparr>registerResponse = Inl (Error ''not asked''), setOAuthClientIdError = None,
        setAccessTokenError = None, verifier = ''v'', challenge = ''c'',
        generatedState = ''s1'', authUrlValid = True,
        callbackRequests =
          [\<lparr>has_url = True, pathname = ''/favicon.ico'', query_code = None,
           query_state = None, query_error = None,
           query_error_description = None\<rparr>,
           \<lparr>has_url = True, pathname = ''/callback'', query_code = Some ''abc'',
           query_state = Some ''forged'', query_error = None,
           query_error_description = None\<rparr>],
        tokenResponse = Inr \<lparr>access_token = ''tok'', token_type = ''bearer'', expires_in = Some 3600,
                 refresh_token = None, token_scope = None\<rparr>\<rparr>
       \<lparr>server = None, portInUse = False,
        oauthClientIds = [''https://mcp.sentry.dev'' \<mapsto> ''client-1''],
        accessTokens = Map.empty, requests = []\<rparr>)
     = Throws (Error ''State mismatch - possible CSRF attack'')
   \<and> requests (snd (authenticate
       \<lparr>mcpHost = ''https://mcp.sentry.dev'', oauth_scopes = [''org:read'']\<rparr>
       \<lparr>registerResponse = Inl (Error ''not asked''), setOAuthClientIdError = None,
        setAccessTokenError = None, verifier = ''v'', challenge = ''c'',
        generatedState = ''s1'', authUrlValid = True,
        callbackRequests =
          [\<lparr>has_url = True, pathname = ''/favicon.ico'', query_code = None,
           query_state = None, query_error = None,
           query_error_description = None\<rparr>,
           \<lparr>has_url = True, pathname = ''/callback'', query_code = Some ''abc'',
           query_state = Some ''forged'', query_error = None,
           query_error_description = None\<rparr>],
        tokenResponse = Inr \<lparr>access_token = ''tok'', token_type = ''bearer'', expires_in = Some 3600,
                 refresh_token = None, token_scope = None\<rparr>\<rparr>
       \<lparr>server = None, portInUse = False,
        oauthClientIds = [''https://mcp.sentry.dev'' \<mapsto> ''client-1''],
        accessTokens = Map.empty, requests = []\<rparr>))
     = []
   \<and> accessTokens (snd (authenticate
       \<lparr>mcpHost = ''https://mcp.sentry.dev'', oauth_scopes = [''org:read'']\<rparr>
       \<lparr>registerResponse = Inl (Error ''not asked''), setOAuthClientIdError = None,
        setAccessTokenError = None, verifier = ''v'', challenge = ''c'',
        generatedState = ''s1'', authUrlValid = True,
        callbackRequests =
          [\<lparr>has_url = True, pathname = ''/favicon.ico'', query_code = None,
           query_state = None, query_error = None,
           query_error_description = None\<rparr>,
           \<lparr>has_url = True, pathname = ''/callback'', query_code = Some ''abc'',
           query_state = Some ''forged'', query_error = None,
           query_error_description = None\<rparr>],
        tokenResponse = Inr \<lparr>access_token = ''tok'', token_type = ''bearer'', expires_in = Some 3600,
                 refresh_token = None, token_scope = None\<rparr>\<rparr>
       \<lparr>server = None, portInUse = False,
        oauthClientIds = [''https://mcp.sentry.dev'' \<mapsto> ''client-1''],
        accessTokens = Map.empty, requests = []\<rparr>)) ''https://mcp.sentry.dev''
     = None"
proof -
  let ?config = "\<lparr>mcpHost = ''https://mcp.sentry.dev'', oauth_scopes = [''org:read'']\<rparr>"
  let ?w = "\<lparr>server = None, portInUse = False,
        oauthClientIds = [''https://mcp.sentry.dev'' \<mapsto> ''client-1''],
        accessTokens = Map.empty, requests = []\<rparr>"
  let ?forged = "\<lparr>registerResponse = Inl (Error ''not asked''), setOAuthClientIdError = None,
        setAccessTokenError = None, verifier = ''v'', challenge = ''c'',
        generatedState = ''s1'', authUrlValid = True,
        callbackRequests =
          [\<lparr>has_url = True, pathname = ''/favicon.ico'', query_code = None,
           query_state = None, query_error = None,
           query_error_description = None\<rparr>,
           \<lparr>has_url = True, pathname = ''/callback'', query_code = Some ''abc'',
           query_state = Some ''forged'', query_error = None,
           query_error_description = None\<rparr>],
        tokenResponse = Inr \<lparr>access_token = ''tok'', token_type = ''bearer'', expires_in = Some 3600,
                 refresh_token = None, token_scope = None\<rparr>\<rparr>"
  have free: "\<not> portInUse ?w" by simp
  have c: "getOrRegisterClientId ?config ?forged ?w = (Inr ''client-1'', ?w)"
    by (simp add: getOrRegisterClientId_def truthy_def text_of_def)
  have u: "authUrlValid ?forged" by simp
  have k: "waitForCallback (callbackRequests ?forged) = Some (Resolve ''abc'' ''forged'')"
    by (simp add: handleRequest_def truthy_def text_of_def)
  have m: "''forged'' \<noteq> generatedState ?forged" by simp
  have n: "\<forall>code. Resolve ''abc'' ''forged'' \<noteq> Resolve code (generatedState ?forged)"
    by simp
  show ?thesis
    using authenticate_state_mismatch_no_exchange
      [OF c free u, where code = "''abc''" and receivedState = "''forged''"
        and settled = "Resolve ''abc'' ''forged''"] k m n
    by simp
qed

end
